theory Spec2Isabelle
  imports Complex_Main "HOL-Library.Multiset"
begin

section \<open>JavaScript numbers and values\<close>

text \<open>
  The indicator module and the alert rules compute on JavaScript numbers. A number is
  modelled as an exact real, or one of the three special values of IEEE arithmetic that
  the code can produce by a division: plus and minus infinity and NaN. The rounding error
  of doubles, overflow and the sign of zero are not modelled: a finite result is the exact
  one, and a zero divisor counts as positive zero.
\<close>

datatype jsnum = Fin real | PosInf | NegInf | NaN

fun jneg :: "jsnum \<Rightarrow> jsnum" where
  "jneg (Fin a) = Fin (- a)"
| "jneg PosInf = NegInf"
| "jneg NegInf = PosInf"
| "jneg NaN = NaN"

fun jadd :: "jsnum \<Rightarrow> jsnum \<Rightarrow> jsnum" where
  "jadd (Fin a) (Fin b) = Fin (a + b)"
| "jadd NaN y = NaN"
| "jadd x NaN = NaN"
| "jadd PosInf NegInf = NaN"
| "jadd NegInf PosInf = NaN"
| "jadd PosInf y = PosInf"
| "jadd x PosInf = PosInf"
| "jadd NegInf y = NegInf"
| "jadd x NegInf = NegInf"

definition jsub :: "jsnum \<Rightarrow> jsnum \<Rightarrow> jsnum" where
  "jsub x y = jadd x (jneg y)"

fun jmul :: "jsnum \<Rightarrow> jsnum \<Rightarrow> jsnum" where
  "jmul (Fin a) (Fin b) = Fin (a * b)"
| "jmul NaN y = NaN"
| "jmul x NaN = NaN"
| "jmul (Fin a) PosInf = (if a = 0 then NaN else if 0 < a then PosInf else NegInf)"
| "jmul (Fin a) NegInf = (if a = 0 then NaN else if 0 < a then NegInf else PosInf)"
| "jmul PosInf (Fin b) = (if b = 0 then NaN else if 0 < b then PosInf else NegInf)"
| "jmul NegInf (Fin b) = (if b = 0 then NaN else if 0 < b then NegInf else PosInf)"
| "jmul PosInf PosInf = PosInf"
| "jmul PosInf NegInf = NegInf"
| "jmul NegInf PosInf = NegInf"
| "jmul NegInf NegInf = PosInf"

fun jdiv :: "jsnum \<Rightarrow> jsnum \<Rightarrow> jsnum" where
  "jdiv (Fin a) (Fin b) =
     (if b \<noteq> 0 then Fin (a / b)
      else if a = 0 then NaN else if 0 < a then PosInf else NegInf)"
| "jdiv NaN y = NaN"
| "jdiv x NaN = NaN"
| "jdiv (Fin a) y = Fin 0"
| "jdiv PosInf (Fin b) = (if 0 \<le> b then PosInf else NegInf)"
| "jdiv NegInf (Fin b) = (if 0 \<le> b then NegInf else PosInf)"
| "jdiv x y = NaN"

fun jabs :: "jsnum \<Rightarrow> jsnum" where
  "jabs (Fin a) = Fin \<bar>a\<bar>"
| "jabs NaN = NaN"
| "jabs x = PosInf"

text \<open>The comparisons of JavaScript: every comparison with NaN is false.\<close>

fun jlt :: "jsnum \<Rightarrow> jsnum \<Rightarrow> bool" where
  "jlt (Fin a) (Fin b) = (a < b)"
| "jlt NaN y = False"
| "jlt x NaN = False"
| "jlt x NegInf = False"
| "jlt PosInf y = False"
| "jlt x y = True"

fun jle :: "jsnum \<Rightarrow> jsnum \<Rightarrow> bool" where
  "jle (Fin a) (Fin b) = (a \<le> b)"
| "jle NaN y = False"
| "jle x NaN = False"
| "jle NegInf y = True"
| "jle x PosInf = True"
| "jle x y = False"

definition jgt :: "jsnum \<Rightarrow> jsnum \<Rightarrow> bool" where
  "jgt x y = jlt y x"

definition jge :: "jsnum \<Rightarrow> jsnum \<Rightarrow> bool" where
  "jge x y = jle y x"

text \<open>Strict equality \<open>===\<close> of two numbers: NaN equals nothing, itself included.\<close>

definition jseq :: "jsnum \<Rightarrow> jsnum \<Rightarrow> bool" where
  "jseq x y = (x \<noteq> NaN \<and> x = y)"

text \<open>\<open>Math.max\<close> and \<open>Math.min\<close> of two numbers, and of a spread array.\<close>

definition jmax :: "jsnum \<Rightarrow> jsnum \<Rightarrow> jsnum" where
  "jmax x y = (if x = NaN \<or> y = NaN then NaN else if jlt x y then y else x)"

definition jmin :: "jsnum \<Rightarrow> jsnum \<Rightarrow> jsnum" where
  "jmin x y = (if x = NaN \<or> y = NaN then NaN else if jlt y x then y else x)"

definition math_max :: "jsnum list \<Rightarrow> jsnum" where
  "math_max xs = foldl jmax NegInf xs"

definition math_min :: "jsnum list \<Rightarrow> jsnum" where
  "math_min xs = foldl jmin PosInf xs"

text \<open>
  \<open>parseFloat(x.toFixed(d))\<close>: \<open>toFixed\<close> rounds the absolute value to the nearest
  multiple of \<open>10\<^sup>-\<^sup>d\<close>, the larger one at a tie, and keeps the sign; infinities
  and NaN print as themselves and parse back.
\<close>

definition round_real :: "nat \<Rightarrow> real \<Rightarrow> real" where
  "round_real d a = sgn a * of_int \<lfloor>\<bar>a\<bar> * 10 ^ d + 1 / 2\<rfloor> / 10 ^ d"

fun toFixed :: "nat \<Rightarrow> jsnum \<Rightarrow> jsnum" where
  "toFixed d (Fin a) = Fin (round_real d a)"
| "toFixed d x = x"

text \<open>
  A value read from an object or an array: a number, \<open>null\<close> or \<open>undefined\<close>. In
  arithmetic and comparisons \<open>null\<close> converts to 0 and \<open>undefined\<close> to NaN.
\<close>

datatype jsval = Num jsnum | Null | Undefined

fun toNumber :: "jsval \<Rightarrow> jsnum" where
  "toNumber (Num x) = x"
| "toNumber Null = Fin 0"
| "toNumber Undefined = NaN"

fun truthy :: "jsval \<Rightarrow> bool" where
  "truthy (Num (Fin a)) = (a \<noteq> 0)"
| "truthy (Num NaN) = False"
| "truthy (Num x) = True"
| "truthy Null = False"
| "truthy Undefined = False"

text \<open>\<open>a || b\<close> on values, and \<open>xs[i]\<close> on an array, \<open>undefined\<close> out of range.\<close>

definition js_or :: "jsval \<Rightarrow> jsval \<Rightarrow> jsval" where
  "js_or a b = (if truthy a then a else b)"

definition at_index :: "jsval list \<Rightarrow> nat \<Rightarrow> jsval" where
  "at_index xs i = (if i < length xs then xs ! i else Undefined)"

text \<open>\<open>xs[xs.length - 1]\<close>: the index \<open>-1\<close> of an empty array reads \<open>undefined\<close>.\<close>

definition last_elem :: "jsval list \<Rightarrow> jsval" where
  "last_elem xs = (if xs = [] then Undefined else last xs)"

text \<open>\<open>xs.slice(-k)\<close>: the last \<open>k\<close> elements, all of them when there are fewer.\<close>

definition slice_last :: "nat \<Rightarrow> 'a list \<Rightarrow> 'a list" where
  "slice_last k xs = drop (length xs - k) xs"

text \<open>The sum \<open>xs.reduce((s, x) => s + x, 0)\<close>.\<close>

definition jsum :: "jsnum list \<Rightarrow> jsnum" where
  "jsum xs = foldl jadd (Fin 0) xs"


section \<open>Candles, snapshots and alerts\<close>

text \<open>
  A candle as the data layer delivers it. All five prices and the volume are finite
  numbers; the timestamp plays no part in any computation and is left out.
\<close>

record candle =
  openc :: real
  high :: real
  low :: real
  close :: real
  volume :: real

text \<open>A candlestick pattern as \<open>identifyCandlePatterns\<close> reports it.\<close>

record pattern =
  pattern_name :: string
  position :: nat
  significance :: string

record volume_analysis =
  averageVolume :: jsval
  volumeChange :: jsval
  isVolumeHigh :: bool
  trend :: string

text \<open>
  The snapshot: the object \<open>calculateAllIndicators\<close> returns on success, and the local
  variables that \<open>fetchAlerts\<close> holds for one symbol when its rules start. Each indicator
  field is the last entry of the indicator's output array, \<open>undefined\<close> when the array
  is empty. The Fibonacci levels and the time of the update are not read by any rule and
  are left out.
\<close>

record snapshot =
  lastPrice :: real
  candles :: "candle list"
  rsi :: jsval
  sma20 :: jsval
  ema50 :: jsval
  ema200 :: jsval
  macd_line :: jsval
  macd_signal :: jsval
  macd_histogram :: jsval
  bollinger_upper :: jsval
  bollinger_middle :: jsval
  bollinger_lower :: jsval
  volume_info :: volume_analysis
  support :: "jsnum list"
  resistance :: "jsnum list"
  atr :: jsval
  adx_value :: jsval
  adx_plusDI :: jsval
  adx_minusDI :: jsval
  patterns :: "pattern list"

datatype alert_type = BUY | SELL | MONITORING

datatype confidence = LOW | MEDIUM | HIGH

text \<open>
  The five values of \<open>monitoring_type\<close>, in the source the Portuguese strings for
  "near the support", "near the resistance", "unusual volume", "chart pattern" and
  "strong trend".
\<close>

datatype monitoring_reason =
  NearSupport | NearResistance | UnusualVolume | ChartPattern | StrongTrend

text \<open>
  An alert. The identifier and the creation time (both read the clock) and the
  recommendation text (formatted by the locale) are left out; so are the copies of the
  raw indicators that \<open>fetchAlerts\<close> attaches.
\<close>

record alert =
  symbol :: string
  atype :: alert_type
  price :: real
  conf :: confidence
  read_flag :: bool
  timeframe :: string
  monitoring_type :: "monitoring_reason option"
  ind_rsi :: jsval
  ind_macd :: string
  ind_moving_averages :: string
  ind_bollinger_bands :: string
  level_support :: jsval
  level_resistance :: jsval
  stopLoss :: "jsnum option"
  target :: "jsnum option"

record alerts =
  buy :: "alert list"
  sell :: "alert list"
  monitoring :: "alert list"

definition no_alerts :: alerts where
  "no_alerts = \<lparr>buy = [], sell = [], monitoring = []\<rparr>"

text \<open>\<open>xs[0]\<close> of an array of numbers.\<close>

definition first_level :: "jsnum list \<Rightarrow> jsval" where
  "first_level xs = (case xs of [] \<Rightarrow> Undefined | x # _ \<Rightarrow> Num x)"

text \<open>\<open>s.includes(sub)\<close> on strings.\<close>

fun starts_with :: "string \<Rightarrow> string \<Rightarrow> bool" where
  "starts_with s [] = True"
| "starts_with [] (c # sub) = False"
| "starts_with (d # s) (c # sub) = (d = c \<and> starts_with s sub)"

fun str_includes :: "string \<Rightarrow> string \<Rightarrow> bool" where
  "str_includes [] sub = (sub = [])"
| "str_includes (d # s) sub = (starts_with (d # s) sub \<or> str_includes s sub)"

section \<open>The alert rules\<close>

subsection \<open>The confirmations shared by both rule sets\<close>

text \<open>
  Both \<open>generateTechnicalAlerts\<close> and \<open>fetchAlerts\<close> compute the three confirmations of
  a BUY and of a SELL with the same expressions, on the histogram, the Bollinger band and
  the volume change of the snapshot.
\<close>

definition buy_confirmedByMACD :: "jsval \<Rightarrow> bool" where
  "buy_confirmedByMACD h =
     (jgt (toNumber h) (Fin 0) \<or>
      (jlt (toNumber h) (Fin 0) \<and> jgt (toNumber h) (jsub (toNumber h) (Fin 1))))"

definition sell_confirmedByMACD :: "jsval \<Rightarrow> bool" where
  "sell_confirmedByMACD h =
     (jlt (toNumber h) (Fin 0) \<or>
      (jgt (toNumber h) (Fin 0) \<and> jlt (toNumber h) (jsub (toNumber h) (Fin 1))))"

definition buy_confirmedByBollinger :: "real \<Rightarrow> jsval \<Rightarrow> bool" where
  "buy_confirmedByBollinger currentPrice lower =
     jle (Fin currentPrice) (jmul (toNumber lower) (Fin (101 / 100)))"

definition sell_confirmedByBollinger :: "real \<Rightarrow> jsval \<Rightarrow> bool" where
  "sell_confirmedByBollinger currentPrice upper =
     jge (Fin currentPrice) (jmul (toNumber upper) (Fin (99 / 100)))"

definition confirmedByVolume :: "jsval \<Rightarrow> bool" where
  "confirmedByVolume vc = jgt (toNumber vc) (Fin 20)"

definition confirmationCount :: "bool \<Rightarrow> bool \<Rightarrow> bool \<Rightarrow> nat" where
  "confirmationCount a b c = length (filter (\<lambda>x. x) [a, b, c])"

definition finalConfidence :: "nat \<Rightarrow> confidence" where
  "finalConfidence n = (if 2 \<le> n then HIGH else if 1 \<le> n then MEDIUM else LOW)"

definition buy_target :: "real \<Rightarrow> jsval \<Rightarrow> jsnum" where
  "buy_target currentPrice r =
     jmul (Fin currentPrice) (jadd (Fin 1) (jdiv (jsub (Fin 30) (toNumber r)) (Fin 100)))"

definition sell_target :: "real \<Rightarrow> jsval \<Rightarrow> jsnum" where
  "sell_target currentPrice r =
     jmul (Fin currentPrice) (jsub (Fin 1) (jdiv (jsub (toNumber r) (Fin 70)) (Fin 100)))"

definition macd_label :: "jsval \<Rightarrow> string" where
  "macd_label h = (if jgt (toNumber h) (Fin 0) then ''BULLISH'' else ''BEARISH'')"

definition macd_label_sell :: "jsval \<Rightarrow> string" where
  "macd_label_sell h = (if jlt (toNumber h) (Fin 0) then ''BEARISH'' else ''BULLISH'')"


subsection \<open>The rules of \<open>generateTechnicalAlerts\<close> (timeframes module)\<close>

text \<open>
  The body of \<open>generateTechnicalAlerts\<close> after the snapshot is there: the current price
  is the snapshot's \<open>lastPrice\<close>, and \<open>candles\<close> holds the last ten candles. The BUY and
  the SELL rule push at most one alert each, then five monitoring rules push one alert
  each, in this order.
\<close>

definition technical_buy :: "string \<Rightarrow> string \<Rightarrow> snapshot \<Rightarrow> alert list" where
  "technical_buy smb tf a =
     (let currentPrice = lastPrice a in
      if jlt (toNumber (rsi a)) (Fin 30) then
        (let confirmedMACD = buy_confirmedByMACD (macd_histogram a);
             confirmedBollinger = buy_confirmedByBollinger currentPrice (bollinger_lower a);
             confirmedVolume = confirmedByVolume (volumeChange (volume_info a));
             cnt = confirmationCount confirmedMACD confirmedBollinger confirmedVolume;
             stop = jmul (math_min (map (\<lambda>c. Fin (low c)) (slice_last 5 (candles a))))
                      (Fin (99 / 100));
             tgt = buy_target currentPrice (rsi a)
         in [\<lparr>symbol = smb, atype = BUY, price = currentPrice, conf = finalConfidence cnt,
              read_flag = False, timeframe = tf, monitoring_type = None,
              ind_rsi = rsi a,
              ind_macd = macd_label (macd_histogram a),
              ind_moving_averages =
                (if jgt (Fin currentPrice) (toNumber (ema50 a)) then ''UPTREND''
                 else ''DOWNTREND''),
              ind_bollinger_bands =
                (if jlt (Fin currentPrice) (toNumber (bollinger_lower a)) then ''LOWER_TOUCH''
                 else ''MIDDLE_BAND''),
              level_support =
                js_or (first_level (support a)) (Num (jmul (Fin currentPrice) (Fin (95 / 100)))),
              level_resistance =
                js_or (first_level (resistance a))
                  (Num (jmul (Fin currentPrice) (Fin (105 / 100)))),
              stopLoss = Some stop, target = Some tgt\<rparr>])
      else [])"

definition technical_sell :: "string \<Rightarrow> string \<Rightarrow> snapshot \<Rightarrow> alert list" where
  "technical_sell smb tf a =
     (let currentPrice = lastPrice a in
      if jgt (toNumber (rsi a)) (Fin 70) then
        (let confirmedMACD = sell_confirmedByMACD (macd_histogram a);
             confirmedBollinger = sell_confirmedByBollinger currentPrice (bollinger_upper a);
             confirmedVolume = confirmedByVolume (volumeChange (volume_info a));
             cnt = confirmationCount confirmedMACD confirmedBollinger confirmedVolume;
             stop = jmul (math_max (map (\<lambda>c. Fin (high c)) (slice_last 5 (candles a))))
                      (Fin (101 / 100));
             tgt = sell_target currentPrice (rsi a)
         in [\<lparr>symbol = smb, atype = SELL, price = currentPrice, conf = finalConfidence cnt,
              read_flag = False, timeframe = tf, monitoring_type = None,
              ind_rsi = rsi a,
              ind_macd = macd_label_sell (macd_histogram a),
              ind_moving_averages =
                (if jlt (Fin currentPrice) (toNumber (ema50 a)) then ''DOWNTREND''
                 else ''UPTREND''),
              ind_bollinger_bands =
                (if jgt (Fin currentPrice) (toNumber (bollinger_upper a)) then ''UPPER_TOUCH''
                 else ''MIDDLE_BAND''),
              level_support =
                js_or (first_level (support a)) (Num (jmul (Fin currentPrice) (Fin (95 / 100)))),
              level_resistance =
                js_or (first_level (resistance a))
                  (Num (jmul (Fin currentPrice) (Fin (105 / 100)))),
              stopLoss = Some stop, target = Some tgt\<rparr>])
      else [])"

text \<open>The monitoring alerts of this module share every field but type and confidence.\<close>

definition technical_monitoring_alert ::
  "string \<Rightarrow> string \<Rightarrow> snapshot \<Rightarrow> monitoring_reason \<Rightarrow> confidence \<Rightarrow> alert" where
  "technical_monitoring_alert smb tf a reason c =
     \<lparr>symbol = smb, atype = MONITORING, price = lastPrice a, conf = c,
      read_flag = False, timeframe = tf, monitoring_type = Some reason,
      ind_rsi = rsi a,
      ind_macd = macd_label (macd_histogram a),
      ind_moving_averages =
        (if jgt (Fin (lastPrice a)) (toNumber (ema50 a)) then ''UPTREND'' else ''DOWNTREND''),
      ind_bollinger_bands = ''MIDDLE_BAND'',
      level_support = first_level (support a),
      level_resistance = first_level (resistance a),
      stopLoss = None, target = None\<rparr>"

text \<open>
  \<open>patterns.find(p => p.significance.includes('strongly') ||
  patterns[0].position >= analysis.candles.length - 2)\<close>, on a non-empty array.
\<close>

definition significantPattern :: "snapshot \<Rightarrow> pattern option" where
  "significantPattern a =
     (case patterns a of
        [] \<Rightarrow> None
      | p0 # _ \<Rightarrow>
          List.find (\<lambda>p. str_includes (significance p) ''strongly'' \<or>
                          int (length (candles a)) - 2 \<le> int (position p0))
            (patterns a))"

definition technical_monitoring :: "string \<Rightarrow> string \<Rightarrow> snapshot \<Rightarrow> alert list" where
  "technical_monitoring smb tf a =
     (if jle (Fin (lastPrice a)) (jmul (toNumber (first_level (support a))) (Fin (102 / 100)))
      then [technical_monitoring_alert smb tf a NearSupport MEDIUM] else []) @
     (if jge (Fin (lastPrice a)) (jmul (toNumber (first_level (resistance a))) (Fin (98 / 100)))
      then [technical_monitoring_alert smb tf a NearResistance MEDIUM] else []) @
     (if jgt (toNumber (volumeChange (volume_info a))) (Fin 100)
      then [technical_monitoring_alert smb tf a UnusualVolume MEDIUM] else []) @
     (case significantPattern a of
        None \<Rightarrow> []
      | Some p \<Rightarrow>
          [technical_monitoring_alert smb tf a ChartPattern
             (if str_includes (significance p) ''strongly'' then HIGH else MEDIUM)]) @
     (if jgt (toNumber (adx_value a)) (Fin 25)
      then [technical_monitoring_alert smb tf a StrongTrend
              (if jgt (toNumber (adx_value a)) (Fin 35) then HIGH else MEDIUM)]
      else [])"

definition technical_rules :: "string \<Rightarrow> string \<Rightarrow> snapshot \<Rightarrow> alerts" where
  "technical_rules smb tf a =
     \<lparr>buy = technical_buy smb tf a, sell = technical_sell smb tf a,
      monitoring = technical_monitoring smb tf a\<rparr>"

subsection \<open>The rules of \<open>fetchAlerts\<close> (per price of the batch)\<close>

text \<open>
  One turn of the loop of \<open>fetchAlerts\<close>, from the point where the indicators of the
  symbol are computed: \<open>currentPrice\<close> comes from the price feed, and \<open>candles\<close> holds the
  whole history of the symbol. The trend label compares with the middle Bollinger band.
\<close>

definition fetch_buy :: "string \<Rightarrow> string \<Rightarrow> real \<Rightarrow> snapshot \<Rightarrow> alert list" where
  "fetch_buy smb tf currentPrice a =
     (if jlt (toNumber (rsi a)) (Fin 30) then
        (let confirmedMACD = buy_confirmedByMACD (macd_histogram a);
             confirmedBollinger = buy_confirmedByBollinger currentPrice (bollinger_lower a);
             confirmedVolume = confirmedByVolume (volumeChange (volume_info a));
             cnt = confirmationCount confirmedMACD confirmedBollinger confirmedVolume;
             supportLevel =
               js_or (first_level (support a)) (Num (jmul (Fin currentPrice) (Fin (95 / 100))));
             resistanceLevel =
               js_or (first_level (resistance a))
                 (Num (jmul (Fin currentPrice) (Fin (105 / 100))));
             stopLossLevel =
               jmul (math_min (slice_last 5 (map (\<lambda>c. Fin (low c)) (candles a))))
                 (Fin (99 / 100));
             targetLevel = buy_target currentPrice (rsi a)
         in [\<lparr>symbol = smb, atype = BUY, price = currentPrice, conf = finalConfidence cnt,
              read_flag = False, timeframe = tf, monitoring_type = None,
              ind_rsi = rsi a,
              ind_macd = macd_label (macd_histogram a),
              ind_moving_averages =
                (if jgt (Fin currentPrice) (toNumber (bollinger_middle a)) then ''UPTREND''
                 else ''DOWNTREND''),
              ind_bollinger_bands =
                (if jlt (Fin currentPrice) (toNumber (bollinger_lower a)) then ''LOWER_TOUCH''
                 else ''MIDDLE_BAND''),
              level_support = supportLevel, level_resistance = resistanceLevel,
              stopLoss = Some stopLossLevel, target = Some targetLevel\<rparr>])
      else [])"

definition fetch_sell :: "string \<Rightarrow> string \<Rightarrow> real \<Rightarrow> snapshot \<Rightarrow> alert list" where
  "fetch_sell smb tf currentPrice a =
     (if jgt (toNumber (rsi a)) (Fin 70) then
        (let confirmedMACD = sell_confirmedByMACD (macd_histogram a);
             confirmedBollinger = sell_confirmedByBollinger currentPrice (bollinger_upper a);
             confirmedVolume = confirmedByVolume (volumeChange (volume_info a));
             cnt = confirmationCount confirmedMACD confirmedBollinger confirmedVolume;
             supportLevel =
               js_or (first_level (support a)) (Num (jmul (Fin currentPrice) (Fin (95 / 100))));
             resistanceLevel =
               js_or (first_level (resistance a))
                 (Num (jmul (Fin currentPrice) (Fin (105 / 100))));
             stopLossLevel =
               jmul (math_max (slice_last 5 (map (\<lambda>c. Fin (high c)) (candles a))))
                 (Fin (101 / 100));
             targetLevel = sell_target currentPrice (rsi a)
         in [\<lparr>symbol = smb, atype = SELL, price = currentPrice, conf = finalConfidence cnt,
              read_flag = False, timeframe = tf, monitoring_type = None,
              ind_rsi = rsi a,
              ind_macd = macd_label_sell (macd_histogram a),
              ind_moving_averages =
                (if jlt (Fin currentPrice) (toNumber (bollinger_middle a)) then ''DOWNTREND''
                 else ''UPTREND''),
              ind_bollinger_bands =
                (if jgt (Fin currentPrice) (toNumber (bollinger_upper a)) then ''UPPER_TOUCH''
                 else ''MIDDLE_BAND''),
              level_support = supportLevel, level_resistance = resistanceLevel,
              stopLoss = Some stopLossLevel, target = Some targetLevel\<rparr>])
      else [])"

text \<open>
  The four reasons of the monitoring rule, as the conditions the source tests. The two
  distances are percentages of the current price.
\<close>

definition distanceToSupport :: "real \<Rightarrow> jsnum \<Rightarrow> jsnum" where
  "distanceToSupport currentPrice closestSupport =
     jmul (jdiv (jsub (Fin currentPrice) closestSupport) (Fin currentPrice)) (Fin 100)"

definition distanceToResistance :: "real \<Rightarrow> jsnum \<Rightarrow> jsnum" where
  "distanceToResistance currentPrice closestResistance =
     jmul (jdiv (jsub closestResistance (Fin currentPrice)) (Fin currentPrice)) (Fin 100)"

definition near_support :: "real \<Rightarrow> snapshot \<Rightarrow> bool" where
  "near_support currentPrice a =
     (case support a of
        [] \<Rightarrow> False
      | s # _ \<Rightarrow> jge (distanceToSupport currentPrice s) (Fin 0) \<and>
                 jlt (distanceToSupport currentPrice s) (Fin 3))"

definition near_resistance :: "real \<Rightarrow> snapshot \<Rightarrow> bool" where
  "near_resistance currentPrice a =
     (case resistance a of
        [] \<Rightarrow> False
      | r # _ \<Rightarrow> jge (distanceToResistance currentPrice r) (Fin 0) \<and>
                 jlt (distanceToResistance currentPrice r) (Fin 3))"

definition volume_anomaly :: "snapshot \<Rightarrow> bool" where
  "volume_anomaly a = jgt (toNumber (volumeChange (volume_info a))) (Fin 50)"

definition strong_trend :: "snapshot \<Rightarrow> bool" where
  "strong_trend a = jgt (toNumber (adx_value a)) (Fin 25)"

text \<open>
  The variable \<open>monitoringType\<close> after the four tests: each test after the first runs
  only while the variable is still \<open>null\<close>.
\<close>

definition monitoringType :: "real \<Rightarrow> snapshot \<Rightarrow> monitoring_reason option" where
  "monitoringType currentPrice a =
     (let m0 = None;
          m1 = (if near_support currentPrice a then Some NearSupport else m0);
          m2 = (if m1 = None \<and> near_resistance currentPrice a then Some NearResistance
                else m1);
          m3 = (if m2 = None \<and> volume_anomaly a then Some UnusualVolume else m2);
          m4 = (if m3 = None \<and> strong_trend a then Some StrongTrend else m3)
      in m4)"

definition fetch_monitoring :: "string \<Rightarrow> string \<Rightarrow> real \<Rightarrow> snapshot \<Rightarrow> alert list" where
  "fetch_monitoring smb tf currentPrice a =
     (if support a \<noteq> [] \<or> resistance a \<noteq> [] then
        (case monitoringType currentPrice a of
           None \<Rightarrow> []
         | Some reason \<Rightarrow>
             [\<lparr>symbol = smb, atype = MONITORING, price = currentPrice, conf = MEDIUM,
               read_flag = False, timeframe = tf, monitoring_type = Some reason,
               ind_rsi = rsi a,
               ind_macd = macd_label (macd_histogram a),
               ind_moving_averages =
                 (if jgt (Fin currentPrice) (toNumber (bollinger_middle a)) then ''UPTREND''
                  else ''DOWNTREND''),
               ind_bollinger_bands = ''MIDDLE_BAND'',
               level_support =
                 js_or (first_level (support a))
                   (Num (jmul (Fin currentPrice) (Fin (95 / 100)))),
               level_resistance =
                 js_or (first_level (resistance a))
                   (Num (jmul (Fin currentPrice) (Fin (105 / 100)))),
               stopLoss = None, target = None\<rparr>])
      else [])"

definition fetchAlerts_symbol :: "string \<Rightarrow> string \<Rightarrow> real \<Rightarrow> snapshot \<Rightarrow> alerts" where
  "fetchAlerts_symbol smb tf currentPrice a =
     \<lparr>buy = fetch_buy smb tf currentPrice a, sell = fetch_sell smb tf currentPrice a,
      monitoring = fetch_monitoring smb tf currentPrice a\<rparr>"

section \<open>The indicator module\<close>

text \<open>
  The functions of the indicator module take arrays of numbers (closing prices, volumes)
  or arrays of candles, and a period. The period is a natural number; what the code does
  for a period of 0 is part of the model. A function that can throw returns a sum.
\<close>

datatype js_error = RangeError | TypeError

text \<open>\<open>xs.slice(s, e)\<close>: a negative index counts from the end, and both are clamped.\<close>

definition js_slice :: "int \<Rightarrow> int \<Rightarrow> 'a list \<Rightarrow> 'a list" where
  "js_slice s e xs =
     (let n = int (length xs);
          k = (if s < 0 then max (n + s) 0 else min s n);
          f = (if e < 0 then max (n + e) 0 else min e n)
      in take (nat (f - k)) (drop (nat k) xs))"

definition js_slice_from :: "int \<Rightarrow> 'a list \<Rightarrow> 'a list" where
  "js_slice_from s xs = js_slice s (int (length xs)) xs"

text \<open>\<open>xs[i]\<close> for an index that the loop may have driven below zero.\<close>

definition at_int :: "jsval list \<Rightarrow> int \<Rightarrow> jsval" where
  "at_int xs i = (if 0 \<le> i \<and> i < int (length xs) then xs ! nat i else Undefined)"

fun jsqrt :: "jsnum \<Rightarrow> jsnum" where
  "jsqrt (Fin a) = (if a < 0 then NaN else Fin (sqrt a))"
| "jsqrt PosInf = PosInf"
| "jsqrt x = NaN"

subsection \<open>\<open>calculateRSI\<close>\<close>

text \<open>The changes \<open>prices[i] - prices[i-1]\<close> for \<open>i\<close> from 1.\<close>

definition price_changes :: "jsnum list \<Rightarrow> jsnum list" where
  "price_changes prices = map (\<lambda>(a, b). jsub b a) (zip prices (tl prices))"

definition gains_of :: "jsnum list \<Rightarrow> jsnum list" where
  "gains_of changes = map (\<lambda>c. if jgt c (Fin 0) then c else Fin 0) changes"

definition losses_of :: "jsnum list \<Rightarrow> jsnum list" where
  "losses_of changes = map (\<lambda>c. if jlt c (Fin 0) then jabs c else Fin 0) changes"

text \<open>One step of Wilder's smoothing, \<open>((avg * (period - 1)) + x) / period\<close>.\<close>

definition wilder_step :: "nat \<Rightarrow> jsnum \<Rightarrow> jsnum \<Rightarrow> jsnum" where
  "wilder_step period avg x =
     jdiv (jadd (jmul avg (Fin (real period - 1))) x) (Fin (real period))"

text \<open>
  The two loops over one of the arrays: the mean of its first \<open>period\<close> entries, then a
  smoothing step for each later entry.
\<close>

definition wilder_average :: "nat \<Rightarrow> jsnum list \<Rightarrow> jsnum" where
  "wilder_average period xs =
     foldl (wilder_step period) (jdiv (jsum (take period xs)) (Fin (real period)))
       (drop period xs)"

definition calculateRSI :: "jsnum list \<Rightarrow> nat \<Rightarrow> jsval" where
  "calculateRSI prices period =
     (if length prices < period + 1 then Null
      else
        let changes = price_changes prices in
        if list_all (\<lambda>c. jseq c (Fin 0)) changes then Num (Fin 50)
        else
          let gains = gains_of changes; losses = losses_of changes in
          if list_all (\<lambda>l. jseq l (Fin 0)) losses then Num (Fin 100)
          else if list_all (\<lambda>g. jseq g (Fin 0)) gains then Num (Fin 0)
          else
            let avgGain = wilder_average period gains;
                avgLoss = wilder_average period losses in
            if jseq avgLoss (Fin 0) then Num (Fin 100)
            else
              let rs = jdiv avgGain avgLoss;
                  r = jsub (Fin 100) (jdiv (Fin 100) (jadd (Fin 1) rs))
              in Num (toFixed 2 r))"

subsection \<open>\<open>calculateSMA\<close> and \<open>calculateEMA\<close>\<close>

text \<open>
  The second loop of \<open>calculateSMA\<close> starts at \<open>period - 1\<close>, which is \<open>-1\<close> for a
  period of 0; the window is then the empty slice.
\<close>

definition calculateSMA :: "jsnum list \<Rightarrow> nat \<Rightarrow> jsval list" where
  "calculateSMA prices period =
     (if length prices < period then []
      else replicate (period - 1) Null @
           map (\<lambda>i. Num (toFixed 2
                  (jdiv (jsum (js_slice (i - int period + 1) (i + 1) prices))
                     (Fin (real period)))))
             [int period - 1 .. int (length prices) - 1])"

text \<open>
  The loop of \<open>calculateEMA\<close>: each value is computed from the last value pushed, which
  is the rounded one, and pushed rounded.
\<close>

fun ema_loop :: "jsnum \<Rightarrow> jsnum \<Rightarrow> jsnum list \<Rightarrow> jsnum list" where
  "ema_loop multiplier prev [] = []"
| "ema_loop multiplier prev (p # ps) =
     (let currentEMA = toFixed 2 (jadd (jmul (jsub p prev) multiplier) prev)
      in currentEMA # ema_loop multiplier currentEMA ps)"

text \<open>
  The first value pushed is \<open>smaFirst\<close> as computed. \<open>Array(period - 1)\<close> throws a
  RangeError for a period of 0.
\<close>

definition calculateEMA :: "jsnum list \<Rightarrow> nat \<Rightarrow> js_error + jsval list" where
  "calculateEMA prices period =
     (if length prices < period then Inr []
      else
        let multiplier = jdiv (Fin 2) (Fin (real period + 1));
            smaFirst = jdiv (jsum (js_slice 0 (int period) prices)) (Fin (real period));
            ema = smaFirst # ema_loop multiplier smaFirst (drop period prices)
        in if period = 0 then Inl RangeError
           else Inr (replicate (period - 1) Null @ map Num ema))"

subsection \<open>\<open>calculateMACD\<close>\<close>

record macd_result =
  line :: "jsval list"
  signal :: "jsval list"
  histogram :: "jsval list"

text \<open>
  The entry of the MACD line and of the histogram at one index: \<open>null\<close> when one of the
  operands is \<open>null\<close>, the rounded difference otherwise.
\<close>

definition diff_entry :: "jsval \<Rightarrow> jsval \<Rightarrow> jsval" where
  "diff_entry x y =
     (if x \<noteq> Null \<and> y \<noteq> Null then Num (toFixed 2 (jsub (toNumber x) (toNumber y)))
      else Null)"

definition calculateMACD :: "jsnum list \<Rightarrow> nat \<Rightarrow> nat \<Rightarrow> nat \<Rightarrow> js_error + macd_result" where
  "calculateMACD prices fastPeriod slowPeriod signalPeriod =
     (if length prices < slowPeriod + signalPeriod
      then Inr \<lparr>line = [], signal = [], histogram = []\<rparr>
      else
        case calculateEMA prices fastPeriod of
          Inl e \<Rightarrow> Inl e
        | Inr fastEMA \<Rightarrow>
           (case calculateEMA prices slowPeriod of
              Inl e \<Rightarrow> Inl e
            | Inr slowEMA \<Rightarrow>
               (let macdLine =
                      map (\<lambda>i. diff_entry (at_index fastEMA i) (at_index slowEMA i))
                        [0 ..< length prices];
                    validMacdValues = filter (\<lambda>v. v \<noteq> Null) macdLine
                in case calculateEMA (map toNumber validMacdValues) signalPeriod of
                     Inl e \<Rightarrow> Inl e
                   | Inr signalEMA \<Rightarrow>
                      (let signalLine =
                             replicate (length macdLine - length validMacdValues) Null
                               @ signalEMA;
                           hist =
                             map (\<lambda>i. diff_entry (at_index macdLine i) (at_index signalLine i))
                               [0 ..< length macdLine]
                       in Inr \<lparr>line = macdLine, signal = signalLine, histogram = hist\<rparr>))))"

subsection \<open>\<open>calculateBollingerBands\<close>\<close>

record bollinger_result =
  upper :: "jsval list"
  middle :: "jsval list"
  lower :: "jsval list"

definition standardDeviation :: "jsnum list \<Rightarrow> nat \<Rightarrow> jsnum" where
  "standardDeviation slice period =
     (let mean = jdiv (jsum slice) (Fin (real period));
          squaredDiffs = map (\<lambda>price. jmul (jsub price mean) (jsub price mean)) slice;
          variance = jdiv (jsum squaredDiffs) (Fin (real period))
      in jsqrt variance)"

definition calculateBollingerBands :: "jsnum list \<Rightarrow> nat \<Rightarrow> jsnum \<Rightarrow> bollinger_result" where
  "calculateBollingerBands prices period stdDev =
     (if length prices < period then \<lparr>upper = [], middle = [], lower = []\<rparr>
      else
        let sma = calculateSMA prices period;
            idx = [int period - 1 .. int (length prices) - 1];
            sd = (\<lambda>i. standardDeviation (js_slice (i - int period + 1) (i + 1) prices) period)
        in \<lparr>upper = replicate (period - 1) Null @
                 map (\<lambda>i. Num (toFixed 2 (jadd (toNumber (at_int sma i)) (jmul (sd i) stdDev))))
                   idx,
            middle = sma,
            lower = replicate (period - 1) Null @
                 map (\<lambda>i. Num (toFixed 2 (jsub (toNumber (at_int sma i)) (jmul (sd i) stdDev))))
                   idx\<rparr>)"

subsection \<open>\<open>analyzeVolume\<close>\<close>

definition analyzeVolume :: "jsnum list \<Rightarrow> nat \<Rightarrow> volume_analysis" where
  "analyzeVolume volumes period =
     (if length volumes < period
      then \<lparr>averageVolume = Null, volumeChange = Null, isVolumeHigh = False,
            trend = ''neutral''\<rparr>
      else
        let recentVolumes = js_slice_from (- int period) volumes;
            avg = jdiv (jsum recentVolumes) (Fin (real period));
            lastVolume = toNumber (last_elem (map Num volumes));
            change = jmul (jdiv (jsub lastVolume avg) avg) (Fin 100);
            last3 = jdiv (jsum (js_slice_from (- 3) volumes)) (Fin 3);
            prev3 = jdiv (jsum (js_slice (- 6) (- 3) volumes)) (Fin 3)
        in \<lparr>averageVolume = Num (toFixed 2 avg), volumeChange = Num (toFixed 2 change),
            isVolumeHigh = jgt change (Fin 50),
            trend = (if jgt last3 (jmul prev3 (Fin (12 / 10))) then ''increasing''
                     else if jlt last3 (jmul prev3 (Fin (8 / 10))) then ''decreasing''
                     else ''neutral'')\<rparr>)"

subsection \<open>\<open>findSupportResistanceLevels\<close> and \<open>groupLevels\<close>\<close>

record level =
  level_price :: jsnum
  level_index :: nat

record level_group =
  group_price :: jsnum
  strength :: nat

record sr_levels =
  sr_support :: "jsnum list"
  sr_resistance :: "jsnum list"

text \<open>The two tests of the scan at index \<open>i\<close>, on the lows and on the highs.\<close>

definition is_local_min :: "candle list \<Rightarrow> nat \<Rightarrow> bool" where
  "is_local_min prices i =
     (low (prices ! i) < low (prices ! (i - 1)) \<and> low (prices ! i) < low (prices ! (i - 2)) \<and>
      low (prices ! i) < low (prices ! (i + 1)) \<and> low (prices ! i) < low (prices ! (i + 2)))"

definition is_local_max :: "candle list \<Rightarrow> nat \<Rightarrow> bool" where
  "is_local_max prices i =
     (high (prices ! i) > high (prices ! (i - 1)) \<and> high (prices ! i) > high (prices ! (i - 2)) \<and>
      high (prices ! i) > high (prices ! (i + 1)) \<and> high (prices ! i) > high (prices ! (i + 2)))"

text \<open>
  The scan \<open>for (let i = 5; i < prices.length - 5; i++)\<close>, with the two arrays it
  pushes to. Every index it reads lies inside the array.
\<close>

function scan_levels ::
  "candle list \<Rightarrow> nat \<Rightarrow> level list \<Rightarrow> level list \<Rightarrow> level list \<times> level list" where
  "scan_levels prices i supports resistances =
     (if i + 5 < length prices then
        scan_levels prices (i + 1)
          (if is_local_min prices i
           then supports @ [\<lparr>level_price = Fin (low (prices ! i)), level_index = i\<rparr>]
           else supports)
          (if is_local_max prices i
           then resistances @ [\<lparr>level_price = Fin (high (prices ! i)), level_index = i\<rparr>]
           else resistances)
      else (supports, resistances))"
  by pat_completeness auto
termination
  by (relation "measure (\<lambda>(prices, i, supports, resistances). length prices - i)") auto

declare scan_levels.simps [simp del]

text \<open>
  The inner loop of \<open>groupLevels\<close> for one level: the first group whose price is within
  the threshold takes the level, and a new group is appended when there is none.
\<close>

definition near_group :: "jsnum \<Rightarrow> level_group \<Rightarrow> bool" where
  "near_group p g =
     jlt (jdiv (jabs (jsub p (group_price g))) (group_price g)) (Fin (5 / 1000))"

definition merge_level :: "jsnum \<Rightarrow> level_group \<Rightarrow> level_group" where
  "merge_level p g =
     \<lparr>group_price =
        jdiv (jadd (jmul (group_price g) (Fin (real (strength g)))) p)
          (Fin (real (strength g + 1))),
      strength = strength g + 1\<rparr>"

fun add_level :: "jsnum \<Rightarrow> level_group list \<Rightarrow> level_group list" where
  "add_level p [] = [\<lparr>group_price = p, strength = 1\<rparr>]"
| "add_level p (g # gs) =
     (if near_group p g then merge_level p g # gs else g # add_level p gs)"

definition groupLevels :: "level list \<Rightarrow> level_group list" where
  "groupLevels levels = foldl (\<lambda>grouped l. add_level (level_price l) grouped) [] levels"

text \<open>
  \<open>sort((a, b) => b.strength - a.strength)\<close>: descending by strength and stable, as
  the language requires of \<open>sort\<close>; then the first three, their prices rounded.
\<close>

definition top_levels :: "level_group list \<Rightarrow> jsnum list" where
  "top_levels groups =
     map (\<lambda>g. toFixed 2 (group_price g))
       (take 3 (sort_key (\<lambda>g. - int (strength g)) groups))"

text \<open>
  \<open>prices[0].high\<close> throws a TypeError on an empty array, which the length test lets
  through for a lookback of 0; a first high of 0 counts as a missing field.
\<close>

definition findSupportResistanceLevels :: "candle list \<Rightarrow> nat \<Rightarrow> js_error + sr_levels" where
  "findSupportResistanceLevels prices lookback =
     (if length prices < lookback then Inr \<lparr>sr_support = [], sr_resistance = []\<rparr>
      else
        case prices of
          [] \<Rightarrow> Inl TypeError
        | c # _ \<Rightarrow>
            if high c = 0 then Inr \<lparr>sr_support = [], sr_resistance = []\<rparr>
            else
              let (supports, resistances) = scan_levels prices 5 [] []
              in Inr \<lparr>sr_support = top_levels (groupLevels supports),
                      sr_resistance = top_levels (groupLevels resistances)\<rparr>)"

subsection \<open>\<open>calculateATR\<close>\<close>

definition trueRange :: "candle \<Rightarrow> candle \<Rightarrow> jsnum" where
  "trueRange prev cur =
     (let tr1 = jsub (Fin (high cur)) (Fin (low cur));
          tr2 = jabs (jsub (Fin (high cur)) (Fin (close prev)));
          tr3 = jabs (jsub (Fin (low cur)) (Fin (close prev)))
      in math_max [tr1, tr2, tr3])"

definition trueRanges :: "candle list \<Rightarrow> jsnum list" where
  "trueRanges prices = map (\<lambda>(prev, cur). trueRange prev cur) (zip prices (tl prices))"

text \<open>
  The loop of \<open>calculateATR\<close>: the running value stays unrounded, each value pushed is
  rounded to 4 places.
\<close>

fun atr_loop :: "nat \<Rightarrow> jsnum \<Rightarrow> jsnum list \<Rightarrow> jsnum list" where
  "atr_loop period a [] = []"
| "atr_loop period a (t # ts) =
     (let a' = wilder_step period a t in toFixed 4 a' # atr_loop period a' ts)"

text \<open>The first value of the result is the mean of the first true ranges as computed.\<close>

definition calculateATR :: "candle list \<Rightarrow> nat \<Rightarrow> jsval list" where
  "calculateATR prices period =
     (if length prices < period + 1 then []
      else
        case prices of
          [] \<Rightarrow> []
        | c # _ \<Rightarrow>
            if high c = 0 then []
            else
              let trs = trueRanges prices;
                  a0 = jdiv (jsum (js_slice 0 (int period) trs)) (Fin (real period));
                  atrValues = a0 # atr_loop period a0 (drop period trs)
              in replicate period Null @ map Num atrValues)"

subsection \<open>\<open>calculateADX\<close>\<close>

record adx_result =
  adx :: "jsval list"
  plusDI :: "jsval list"
  minusDI :: "jsval list"

text \<open>The pair \<open>(+DM, -DM)\<close> of a candle and its predecessor.\<close>

definition directionalMovement :: "candle \<Rightarrow> candle \<Rightarrow> jsnum \<times> jsnum" where
  "directionalMovement prev cur =
     (let upMove = jsub (Fin (high cur)) (Fin (high prev));
          downMove = jsub (Fin (low prev)) (Fin (low cur))
      in if jgt upMove downMove \<and> jgt upMove (Fin 0) then (upMove, Fin 0)
         else if jgt downMove upMove \<and> jgt downMove (Fin 0) then (Fin 0, downMove)
         else (Fin 0, Fin 0))"

definition plusDM :: "candle list \<Rightarrow> jsnum list" where
  "plusDM prices = map (\<lambda>(prev, cur). fst (directionalMovement prev cur)) (zip prices (tl prices))"

definition minusDM :: "candle list \<Rightarrow> jsnum list" where
  "minusDM prices = map (\<lambda>(prev, cur). snd (directionalMovement prev cur)) (zip prices (tl prices))"

text \<open>\<open>s - (s / period) + x\<close>, the update of each of the three smoothed sums.\<close>

definition smooth_step :: "nat \<Rightarrow> jsnum \<Rightarrow> jsnum \<Rightarrow> jsnum" where
  "smooth_step period s x = jadd (jsub s (jdiv s (Fin (real period)))) x"

text \<open>
  The loop over the indices from \<open>period\<close> on: it updates the three sums and pushes the
  rounded \<open>+DI\<close>, \<open>-DI\<close> and \<open>DX\<close>; \<open>DX\<close> is computed from the unrounded two.
\<close>

fun di_loop ::
  "nat \<Rightarrow> jsnum \<Rightarrow> jsnum \<Rightarrow> jsnum \<Rightarrow> (jsnum \<times> jsnum \<times> jsnum) list \<Rightarrow>
   (jsnum \<times> jsnum \<times> jsnum) list" where
  "di_loop period smoothedTR smoothedPlusDM smoothedMinusDM [] = []"
| "di_loop period smoothedTR smoothedPlusDM smoothedMinusDM ((tr, pdm, mdm) # rest) =
     (let sTR = smooth_step period smoothedTR tr;
          sPlus = smooth_step period smoothedPlusDM pdm;
          sMinus = smooth_step period smoothedMinusDM mdm;
          pDI = jmul (jdiv sPlus sTR) (Fin 100);
          mDI = jmul (jdiv sMinus sTR) (Fin 100);
          dx = jmul (jabs (jdiv (jsub pDI mDI) (jadd pDI mDI))) (Fin 100)
      in (toFixed 2 pDI, toFixed 2 mDI, toFixed 2 dx) # di_loop period sTR sPlus sMinus rest)"

text \<open>The second loop: the running ADX stays unrounded, each value pushed is rounded.\<close>

fun adx_loop :: "nat \<Rightarrow> jsnum \<Rightarrow> jsnum list \<Rightarrow> jsnum list" where
  "adx_loop period a [] = []"
| "adx_loop period a (d # ds) =
     (let a' = wilder_step period a d in toFixed 2 a' # adx_loop period a' ds)"

text \<open>
  The length test lets an empty array through for a period of 0, and \<open>prices[0].high\<close>
  then throws. The padding \<open>Array(prices.length - adxValues.length)\<close> never has a
  negative length: there are at most as many ADX values as candles.
\<close>

definition calculateADX :: "candle list \<Rightarrow> nat \<Rightarrow> js_error + adx_result" where
  "calculateADX prices period =
     (if length prices < period * 2 then Inr \<lparr>adx = [], plusDI = [], minusDI = []\<rparr>
      else
        case prices of
          [] \<Rightarrow> Inl TypeError
        | c # _ \<Rightarrow>
            if high c = 0 then Inr \<lparr>adx = [], plusDI = [], minusDI = []\<rparr>
            else
              let trs = trueRanges prices;
                  pdms = plusDM prices;
                  mdms = minusDM prices;
                  smoothedTR = jsum (js_slice 0 (int period) trs);
                  smoothedPlusDM = jsum (js_slice 0 (int period) pdms);
                  smoothedMinusDM = jsum (js_slice 0 (int period) mdms);
                  rows = di_loop period smoothedTR smoothedPlusDM smoothedMinusDM
                           (drop period (zip trs (zip pdms mdms)));
                  plusDIs = map (\<lambda>(p, m, d). Num p) rows;
                  minusDIs = map (\<lambda>(p, m, d). Num m) rows;
                  dxValues = map (\<lambda>(p, m, d). d) rows;
                  a0 = jdiv (jsum (js_slice 0 (int period) dxValues)) (Fin (real period));
                  adxValues = toFixed 2 a0 # adx_loop period a0 (drop period dxValues);
                  nullPadding = replicate (length prices - length adxValues) Null
              in Inr \<lparr>adx = nullPadding @ map Num adxValues,
                      plusDI =
                        js_slice 0 (int (length nullPadding) - int (length plusDIs)) nullPadding
                          @ plusDIs,
                      minusDI =
                        js_slice 0 (int (length nullPadding) - int (length minusDIs)) nullPadding
                          @ minusDIs\<rparr>)"

section \<open>The aggregator and the alert generator\<close>

text \<open>
  \<open>calculateAllIndicators\<close> on the candles that the data layer returned for one symbol
  and timeframe. It calls every indicator with its default period, and keeps the last
  entry of each output array. The error outcome, \<open>Inl\<close> with the message, is returned for
  an empty series and for any exception of a call; the messages are written without
  accents, and those of the two exceptions stand for the ones of the engine. The source
  of \<open>identifyCandlePatterns\<close> is cut off in this repository, so the function is a
  parameter.
\<close>

definition error_message :: "js_error \<Rightarrow> string" where
  "error_message e = (case e of RangeError \<Rightarrow> ''Invalid array length''
                              | TypeError \<Rightarrow> ''Cannot read properties of undefined'')"

definition calculateAllIndicators ::
  "(candle list \<Rightarrow> pattern list) \<Rightarrow> candle list \<Rightarrow> string + snapshot" where
  "calculateAllIndicators identifyCandlePatterns cs =
     (if cs = [] then Inl ''Sem dados historicos disponiveis''
      else
        let closes = map (\<lambda>c. Fin (close c)) cs;
            volumes = map (\<lambda>c. Fin (volume c)) cs
        in
        case calculateEMA closes 50 of Inl e \<Rightarrow> Inl (error_message e) | Inr e50 \<Rightarrow>
        case calculateEMA closes 200 of Inl e \<Rightarrow> Inl (error_message e) | Inr e200 \<Rightarrow>
        case calculateMACD closes 12 26 9 of Inl e \<Rightarrow> Inl (error_message e) | Inr macd \<Rightarrow>
        case findSupportResistanceLevels cs 30 of Inl e \<Rightarrow> Inl (error_message e) | Inr sr \<Rightarrow>
        case calculateADX cs 14 of Inl e \<Rightarrow> Inl (error_message e) | Inr dmi \<Rightarrow>
          (let bollinger = calculateBollingerBands closes 20 (Fin 2);
               candlePatterns = identifyCandlePatterns cs
           in Inr \<lparr>lastPrice = close (last cs),
                   candles = slice_last 10 cs,
                   rsi = calculateRSI closes 14,
                   sma20 = last_elem (calculateSMA closes 20),
                   ema50 = last_elem e50,
                   ema200 = last_elem e200,
                   macd_line = last_elem (line macd),
                   macd_signal = last_elem (signal macd),
                   macd_histogram = last_elem (histogram macd),
                   bollinger_upper = last_elem (upper bollinger),
                   bollinger_middle = last_elem (middle bollinger),
                   bollinger_lower = last_elem (lower bollinger),
                   volume_info = analyzeVolume volumes 14,
                   support = sr_support sr,
                   resistance = sr_resistance sr,
                   atr = last_elem (calculateATR cs 14),
                   adx_value = last_elem (adx dmi),
                   adx_plusDI = last_elem (plusDI dmi),
                   adx_minusDI = last_elem (minusDI dmi),
                   patterns =
                     filter (\<lambda>p. int (length cs) - 3 \<le> int (position p)) candlePatterns\<rparr>))"

text \<open>
  \<open>generateTechnicalAlerts\<close>: the error outcome is thrown again and caught, and the
  empty result is returned; otherwise the rules run on the snapshot.
\<close>

definition generateTechnicalAlerts ::
  "(candle list \<Rightarrow> pattern list) \<Rightarrow> string \<Rightarrow> string \<Rightarrow> candle list \<Rightarrow> alerts" where
  "generateTechnicalAlerts identifyCandlePatterns smb tf cs =
     (case calculateAllIndicators identifyCandlePatterns cs of
        Inl msg \<Rightarrow> no_alerts
      | Inr a \<Rightarrow> technical_rules smb tf a)"

section \<open>Reference definitions and example inputs\<close>



text \<open>
  The snapshot of the specification's example: an RSI of 25, a histogram of +0.5, a lower
  Bollinger band of 100 under a price of 100.5, and a volume change of 30.
\<close>

definition example_candle :: candle where
  "example_candle = \<lparr>openc = 101, high = 102, low = 100, close = 201 / 2, volume = 1300\<rparr>"

definition example_snapshot :: snapshot where
  "example_snapshot =
     \<lparr>lastPrice = 201 / 2,
      candles = [example_candle\<lparr>low := 99\<rparr>, example_candle, example_candle\<lparr>low := 98\<rparr>,
                 example_candle, example_candle, example_candle],
      rsi = Num (Fin 25), sma20 = Num (Fin 104), ema50 = Num (Fin 105), ema200 = Num (Fin 106),
      macd_line = Num (Fin (- 1)), macd_signal = Num (Fin (- 3 / 2)),
      macd_histogram = Num (Fin (1 / 2)),
      bollinger_upper = Num (Fin 108), bollinger_middle = Num (Fin 104),
      bollinger_lower = Num (Fin 100),
      volume_info = \<lparr>averageVolume = Num (Fin 1000), volumeChange = Num (Fin 30),
                      isVolumeHigh = False, trend = ''neutral''\<rparr>,
      support = [Fin 99], resistance = [Fin 110],
      atr = Num (Fin 2), adx_value = Num (Fin 30), adx_plusDI = Num (Fin 10),
      adx_minusDI = Num (Fin 20), patterns = []\<rparr>"

text \<open>
  A finite number, and an array entry that holds one: what the specification calls a
  defined entry.
\<close>

fun is_fin :: "jsnum \<Rightarrow> bool" where
  "is_fin (Fin a) = True"
| "is_fin x = False"

fun defined_number :: "jsval \<Rightarrow> bool" where
  "defined_number (Num x) = is_fin x"
| "defined_number v = False"





text \<open>
  A number that \<open>toFixed(d)\<close> leaves as it is: a value of \<open>d\<close> decimal places, and
  an array entry that holds one. The four candles have the true ranges 1, 1 and 2.
\<close>

definition rounded_to :: "nat \<Rightarrow> jsnum \<Rightarrow> bool" where
  "rounded_to d x = (toFixed d x = x)"

fun rounded_entry :: "nat \<Rightarrow> jsval \<Rightarrow> bool" where
  "rounded_entry d (Num x) = rounded_to d x"
| "rounded_entry d v = False"

definition atr_example :: "candle list" where
  "atr_example =
     [\<lparr>openc = 10, high = 11, low = 10, close = 21 / 2, volume = 5\<rparr>,
      \<lparr>openc = 10, high = 11, low = 10, close = 21 / 2, volume = 5\<rparr>,
      \<lparr>openc = 10, high = 11, low = 10, close = 21 / 2, volume = 5\<rparr>,
      \<lparr>openc = 10, high = 12, low = 10, close = 11, volume = 5\<rparr>]"

text \<open>
  A valid candle, and two of them: one whose range never moves, one whose price never
  moves.
\<close>

definition valid_candle :: "candle \<Rightarrow> bool" where
  "valid_candle c = (low c \<le> high c \<and> close c \<le> high c \<and> low c \<le> close c)"

definition quiet_candle :: candle where
  "quiet_candle = \<lparr>openc = 1, high = 2, low = 1, close = 1, volume = 10\<rparr>"

definition still_candle :: candle where
  "still_candle = \<lparr>openc = 1, high = 1, low = 1, close = 1, volume = 10\<rparr>"



text \<open>
  Two series of 30 candles that are flat except for one low: at index 3, inside the
  first five candles, and at index 7. Three levels at the prices of the specification's
  example.
\<close>

definition base_candle :: candle where
  "base_candle = \<lparr>openc = 101, high = 102, low = 100, close = 101, volume = 10\<rparr>"




text \<open>A series of five candles: too short for every indicator.\<close>

definition short_series :: "candle list" where
  "short_series = [base_candle, base_candle, base_candle, base_candle, base_candle]"

text \<open>
  The range of the directional indicators: a number is in range when it is NaN or lies
  between 0 and 100, an entry when it is \<open>null\<close> or a number in range. A row of the
  three input series is bounded when all three are finite, both movements are not
  negative and their sum is at most the true range.
\<close>

fun percent_or_nan :: "jsnum \<Rightarrow> bool" where
  "percent_or_nan (Fin a) = (0 \<le> a \<and> a \<le> 100)"
| "percent_or_nan NaN = True"
| "percent_or_nan x = False"

fun entry_in_range :: "jsval \<Rightarrow> bool" where
  "entry_in_range (Num x) = percent_or_nan x"
| "entry_in_range Null = True"
| "entry_in_range Undefined = False"

fun row_bounded :: "jsnum \<times> jsnum \<times> jsnum \<Rightarrow> bool" where
  "row_bounded (Fin t, Fin a, Fin b) = (0 \<le> a \<and> 0 \<le> b \<and> a + b \<le> t)"
| "row_bounded r = False"

definition candle_row :: "candle \<times> candle \<Rightarrow> jsnum \<times> jsnum \<times> jsnum" where
  "candle_row pc =
     (trueRange (fst pc) (snd pc), fst (directionalMovement (fst pc) (snd pc)),
      snd (directionalMovement (fst pc) (snd pc)))"

fun triple_in_range :: "jsnum \<times> jsnum \<times> jsnum \<Rightarrow> bool" where
  "triple_in_range (p, m, d) = (percent_or_nan p \<and> percent_or_nan m \<and> percent_or_nan d)"

section \<open>Verified properties\<close>

subsection \<open>The MACD confirmation\<close>

text \<open>
  Claim C3. In both rule sets the MACD confirmation of the BUY rule holds for every
  finite histogram value other than 0, since \<open>h > h - 1\<close> always holds, and the one of the
  SELL rule holds exactly for a negative histogram, since \<open>h < h - 1\<close> never holds. On
  \<open>null\<close> and \<open>undefined\<close> both are false. The confirmation reads the sign of the
  current histogram only.
\<close>

theorem macd_confirmation_sign_only:
  "buy_confirmedByMACD (Num (Fin h)) = (h \<noteq> 0) \<and>
   sell_confirmedByMACD (Num (Fin h)) = (h < 0) \<and>
   buy_confirmedByMACD Null = False \<and> sell_confirmedByMACD Null = False \<and>
   buy_confirmedByMACD Undefined = False \<and> sell_confirmedByMACD Undefined = False"
  by (auto simp add: buy_confirmedByMACD_def sell_confirmedByMACD_def jgt_def jsub_def)

theorem macd_confirmation_sign_only_witness:
  "buy_confirmedByMACD (Num (Fin (-5))) \<and> \<not> sell_confirmedByMACD (Num (Fin 5)) \<and>
   \<not> buy_confirmedByMACD (Num (Fin 0))"
  using macd_confirmation_sign_only [of "-5"] macd_confirmation_sign_only [of 5]
    macd_confirmation_sign_only [of 0]
  by simp

subsection \<open>The BUY rule\<close>


lemma foldl_max_Max: "foldl max (m::real) xs = Max (set (m # xs))"
proof -
  have "(\<lambda>x s. max s x) = (max :: real \<Rightarrow> real \<Rightarrow> real)"
    by (intro ext) (rule max.commute)
  then show ?thesis
    by (simp only: Max.set_eq_fold foldl_conv_fold)
qed

lemma jmin_Fin [simp]: "jmin (Fin a) (Fin b) = Fin (min a b)"
  by (simp add: jmin_def min_def)

lemma jmax_Fin [simp]: "jmax (Fin a) (Fin b) = Fin (max a b)"
  by (simp add: jmax_def max_def)


lemma foldl_jmax_Fin: "foldl jmax (Fin m) (map Fin xs) = Fin (foldl max m xs)"
  by (induction xs arbitrary: m) simp_all


lemma math_max_Fin: "xs \<noteq> [] \<Longrightarrow> math_max (map Fin xs) = Fin (Max (set xs))"
  by (cases xs) (simp_all add: math_max_def jmax_def foldl_jmax_Fin foldl_max_Max)






subsection \<open>The monitoring rule of \<open>fetchAlerts\<close>\<close>








subsection \<open>BUY and SELL exclude each other\<close>

text \<open>
  Claim C10. One run of either rule set, and one call of \<open>generateTechnicalAlerts\<close>,
  returns at most one BUY alert and at most one SELL alert, and never both: the two
  rules test the same RSI against 30 from below and 70 from above.
\<close>

theorem one_side_per_run:
  "length (buy (technical_rules smb tf a)) \<le> 1 \<and>
   length (sell (technical_rules smb tf a)) \<le> 1 \<and>
   (buy (technical_rules smb tf a) = [] \<or> sell (technical_rules smb tf a) = []) \<and>
   length (buy (fetchAlerts_symbol smb tf p a)) \<le> 1 \<and>
   length (sell (fetchAlerts_symbol smb tf p a)) \<le> 1 \<and>
   (buy (fetchAlerts_symbol smb tf p a) = [] \<or> sell (fetchAlerts_symbol smb tf p a) = []) \<and>
   length (buy (generateTechnicalAlerts idp smb tf cs)) \<le> 1 \<and>
   length (sell (generateTechnicalAlerts idp smb tf cs)) \<le> 1 \<and>
   (buy (generateTechnicalAlerts idp smb tf cs) = [] \<or>
    sell (generateTechnicalAlerts idp smb tf cs) = [])"
proof -
  have excl: "\<not> (jlt x (Fin 30) \<and> jgt x (Fin 70))" for x
    by (cases x) (simp_all add: jgt_def)
  have T: "length (buy (technical_rules smb tf b)) \<le> 1 \<and>
           length (sell (technical_rules smb tf b)) \<le> 1 \<and>
           (buy (technical_rules smb tf b) = [] \<or> sell (technical_rules smb tf b) = [])" for b
    using excl [of "toNumber (rsi b)"]
    by (auto simp add: technical_rules_def technical_buy_def technical_sell_def Let_def)
  have F: "length (buy (fetchAlerts_symbol smb tf p a)) \<le> 1 \<and>
           length (sell (fetchAlerts_symbol smb tf p a)) \<le> 1 \<and>
           (buy (fetchAlerts_symbol smb tf p a) = [] \<or> sell (fetchAlerts_symbol smb tf p a) = [])"
    using excl [of "toNumber (rsi a)"]
    by (auto simp add: fetchAlerts_symbol_def fetch_buy_def fetch_sell_def Let_def)
  have G: "length (buy (generateTechnicalAlerts idp smb tf cs)) \<le> 1 \<and>
           length (sell (generateTechnicalAlerts idp smb tf cs)) \<le> 1 \<and>
           (buy (generateTechnicalAlerts idp smb tf cs) = [] \<or>
            sell (generateTechnicalAlerts idp smb tf cs) = [])"
  proof (cases "calculateAllIndicators idp cs")
    case (Inl msg)
    then show ?thesis by (simp add: generateTechnicalAlerts_def no_alerts_def)
  next
    case (Inr b)
    then show ?thesis using T [of b] by (simp add: generateTechnicalAlerts_def)
  qed
  from T [of a] F G show ?thesis by blast
qed

theorem one_side_per_run_witness:
  "sell (technical_rules ''BTC/USDT'' ''1h'' example_snapshot) = [] \<and>
   buy (fetchAlerts_symbol ''BTC/USDT'' ''1h'' 105 (example_snapshot\<lparr>rsi := Num (Fin 75)\<rparr>)) = []"
  using one_side_per_run [of "''BTC/USDT''" "''1h''" example_snapshot 105]
    one_side_per_run [of "''BTC/USDT''" "''1h''" "example_snapshot\<lparr>rsi := Num (Fin 75)\<rparr>" 105]
  by (simp add: example_snapshot_def technical_rules_def technical_sell_def
      fetchAlerts_symbol_def fetch_buy_def jgt_def)

subsection \<open>Arithmetic on finite numbers\<close>

lemma is_fin_iff: "is_fin x = (\<exists>a. x = Fin a)"
  by (cases x) simp_all

lemma foldl_jadd_Fin: "foldl jadd (Fin a) (map Fin xs) = Fin (a + sum_list xs)"
  by (induction xs arbitrary: a) (simp_all add: add.assoc)

lemma jsum_Fin: "jsum (map Fin xs) = Fin (sum_list xs)"
  by (simp add: jsum_def foldl_jadd_Fin)

lemma js_slice_map: "js_slice s e (map f xs) = map f (js_slice s e xs)"
  by (simp add: js_slice_def Let_def take_map drop_map)

lemma jdiv_Fin_pos: "b \<noteq> 0 \<Longrightarrow> jdiv (Fin a) (Fin b) = Fin (a / b)"
  by simp

subsection \<open>The shape of the moving averages\<close>

lemma length_ema_loop: "length (ema_loop m prev ps) = length ps"
  by (induction ps arbitrary: prev) (simp_all add: Let_def)

lemma is_fin_ema_loop:
  "is_fin m \<Longrightarrow> is_fin prev \<Longrightarrow> list_all is_fin ps \<Longrightarrow> list_all is_fin (ema_loop m prev ps)"
proof (induction ps arbitrary: prev)
  case Nil
  then show ?case by simp
next
  case (Cons p ps)
  from Cons.prems obtain a b c where eq: "m = Fin a" "prev = Fin b" "p = Fin c"
    by (auto simp add: is_fin_iff)
  have "is_fin (toFixed 2 (jadd (jmul (jsub p prev) m) prev))"
    by (simp add: eq jsub_def)
  with Cons show ?case by (simp add: Let_def)
qed

lemma sma_shape:
  assumes "0 < period" and "period \<le> length ps"
  shows "length (calculateSMA (map Fin ps) period) = length ps"
    and "take (period - 1) (calculateSMA (map Fin ps) period) = replicate (period - 1) Null"
    and "list_all defined_number (drop (period - 1) (calculateSMA (map Fin ps) period))"
  using assms
  by (simp_all add: calculateSMA_def js_slice_map jsum_Fin list_all_iff)

lemma ema_shape:
  assumes "0 < period" and "period \<le> length ps"
  shows "\<exists>e. calculateEMA (map Fin ps) period = Inr e \<and> length e = length ps \<and>
           take (period - 1) e = replicate (period - 1) Null \<and>
           list_all defined_number (drop (period - 1) e)"
proof -
  let ?m = "jdiv (Fin 2) (Fin (real period + 1))"
  let ?s = "jdiv (jsum (js_slice 0 (int period) (map Fin ps))) (Fin (real period))"
  let ?ema = "?s # ema_loop ?m ?s (drop period (map Fin ps))"
  have m: "is_fin ?m" by simp
  have s: "is_fin ?s" using assms by (simp add: js_slice_map jsum_Fin)
  have "list_all is_fin (drop period (map Fin ps))"
    by (simp add: list_all_iff drop_map)
  then have fin: "list_all is_fin ?ema"
    using is_fin_ema_loop [OF m s] s by simp
  have len: "length ?ema = length ps - period + 1"
    by (simp add: length_ema_loop)
  have e: "calculateEMA (map Fin ps) period = Inr (replicate (period - 1) Null @ map Num ?ema)"
    using assms by (simp add: calculateEMA_def Let_def)
  have "list_all defined_number (map Num ?ema)"
    using fin by (simp add: list_all_iff)
  then show ?thesis
    using assms len by (simp add: e del: list.map)
qed

text \<open>
  Claim C8. For a positive period and a list of at least that many finite prices,
  \<open>calculateSMA\<close> and \<open>calculateEMA\<close> return a sequence as long as the input, whose
  first \<open>period - 1\<close> entries are \<open>null\<close> and whose other entries are all finite numbers.
  For a shorter list both return the empty sequence.
\<close>

theorem moving_average_shape:
  "(0 < period \<and> period \<le> length ps \<longrightarrow>
      length (calculateSMA (map Fin ps) period) = length ps \<and>
      take (period - 1) (calculateSMA (map Fin ps) period) = replicate (period - 1) Null \<and>
      list_all defined_number (drop (period - 1) (calculateSMA (map Fin ps) period)) \<and>
      (\<exists>e. calculateEMA (map Fin ps) period = Inr e \<and> length e = length ps \<and>
           take (period - 1) e = replicate (period - 1) Null \<and>
           list_all defined_number (drop (period - 1) e))) \<and>
   (length ps < period \<longrightarrow>
      calculateSMA (map Fin ps) period = [] \<and> calculateEMA (map Fin ps) period = Inr [])"
proof -
  have "length ps < period \<Longrightarrow>
      calculateSMA (map Fin ps) period = [] \<and> calculateEMA (map Fin ps) period = Inr []"
    by (simp add: calculateSMA_def calculateEMA_def)
  then show ?thesis
    using sma_shape [of period ps] ema_shape [of period ps] by blast
qed

theorem moving_average_shape_witness:
  "length (calculateSMA (map Fin [1, 1, 2, 5]) 3) = 4 \<and>
   take 2 (calculateSMA (map Fin [1, 1, 2, 5]) 3) = [Null, Null] \<and>
   list_all defined_number (drop 2 (calculateSMA (map Fin [1, 1, 2, 5]) 3)) \<and>
   (\<exists>e. calculateEMA (map Fin [1, 1, 2, 5]) 3 = Inr e \<and> length e = 4 \<and>
        take 2 e = [Null, Null] \<and> list_all defined_number (drop 2 e)) \<and>
   calculateSMA (map Fin [1, 2]) 3 = [] \<and> calculateEMA (map Fin [1, 2]) 3 = Inr []"
  using moving_average_shape [of 3 "[1, 1, 2, 5]"] moving_average_shape [of 3 "[1, 2]"]
  by (auto simp add: eval_nat_numeral)

subsection \<open>\<open>calculateRSI\<close>\<close>


























subsection \<open>The first value of \<open>calculateEMA\<close> and \<open>calculateATR\<close>\<close>

text \<open>
  What does hold: rounding twice is rounding once, so every value that the two loops
  push is a rounded one. In the output of \<open>calculateEMA\<close> every entry after the first
  defined one has 2 decimal places, and in the output of \<open>calculateATR\<close> every entry
  after the first defined one has 4.
\<close>

lemma round_real_idem: "round_real d (round_real d a) = round_real d a"
proof -
  define n where "n = \<lfloor>\<bar>a\<bar> * 10 ^ d + 1 / 2\<rfloor>"
  have r: "round_real d a = sgn a * of_int n / 10 ^ d"
    by (simp add: round_real_def n_def)
  have "(0::real) \<le> \<bar>a\<bar> * 10 ^ d + 1 / 2" by simp
  then have n0: "0 \<le> n" unfolding n_def by simp
  show ?thesis
  proof (cases "n = 0")
    case True
    then have z: "round_real d a = 0" by (simp add: r)
    have "round_real d 0 = 0" by (simp add: round_real_def)
    then show ?thesis by (simp only: z)
  next
    case False
    with n0 have npos: "0 < n" by simp
    have "a \<noteq> 0"
    proof
      assume "a = 0"
      then have "n = 0" by (simp add: n_def)
      with False show False by simp
    qed
    then have sg: "\<bar>sgn a\<bar> = 1" by (simp add: abs_sgn_eq)
    have p: "(0::real) < 10 ^ d" by simp
    have ab: "\<bar>sgn a * of_int n / 10 ^ d\<bar> = of_int n / 10 ^ d"
      using npos sg by (simp add: abs_mult)
    then have "\<bar>sgn a * of_int n / 10 ^ d\<bar> * 10 ^ d + 1 / 2 = of_int n + 1 / 2"
      by simp
    then have fl: "\<lfloor>\<bar>sgn a * of_int n / 10 ^ d\<bar> * 10 ^ d + 1 / 2\<rfloor> = n"
      by (simp only:) linarith
    have "sgn (sgn a * of_int n / 10 ^ d) = sgn a"
      using npos \<open>a \<noteq> 0\<close> by (simp add: sgn_mult sgn_divide)
    then have "round_real d (sgn a * of_int n / 10 ^ d) = sgn a * of_int n / 10 ^ d"
      unfolding round_real_def fl by simp
    then show ?thesis by (simp only: r)
  qed
qed

lemma rounded_toFixed: "rounded_to d (toFixed d x)"
  by (cases x) (simp_all add: rounded_to_def round_real_idem)

lemma ema_loop_rounded: "list_all (rounded_to 2) (ema_loop m prev ps)"
  by (induction ps arbitrary: prev) (simp_all add: Let_def rounded_toFixed)

lemma atr_loop_rounded: "list_all (rounded_to 4) (atr_loop p a ts)"
  by (induction ts arbitrary: a) (simp_all add: Let_def rounded_toFixed)

lemma ema_later_entries_rounded:
  assumes "0 < period" and "period \<le> length prices"
    and "calculateEMA prices period = Inr e"
  shows "list_all (rounded_entry 2) (drop period e)"
proof -
  define m where "m = jdiv (Fin 2) (Fin (real period + 1))"
  define s where "s = jdiv (jsum (js_slice 0 (int period) prices)) (Fin (real period))"
  have "e = replicate (period - 1) Null @ Num s # map Num (ema_loop m s (drop period prices))"
    using assms by (simp add: calculateEMA_def Let_def m_def s_def)
  then have "drop period e = map Num (ema_loop m s (drop period prices))"
    using assms(1) by simp
  moreover have "list_all (rounded_entry 2) (map Num (ema_loop m s (drop period prices)))"
    using ema_loop_rounded [of m s "drop period prices"] by (simp add: list_all_iff)
  ultimately show ?thesis by simp
qed

lemma atr_later_entries_rounded:
  "list_all (rounded_entry 4) (drop (period + 1) (calculateATR prices period))"
proof (cases "length prices < period + 1 \<or> high (hd prices) = 0")
  case True
  then show ?thesis by (cases prices) (auto simp add: calculateATR_def)
next
  case False
  then obtain c rest where p: "prices = c # rest" by (cases prices) auto
  define a where
    "a = jdiv (jsum (js_slice 0 (int period) (trueRanges prices))) (Fin (real period))"
  have "calculateATR prices period =
      replicate period Null @ Num a # map Num (atr_loop period a (drop period (trueRanges prices)))"
    using False by (simp add: calculateATR_def Let_def a_def p)
  then have "drop (period + 1) (calculateATR prices period)
      = map Num (atr_loop period a (drop period (trueRanges prices)))"
    by simp
  moreover have
    "list_all (rounded_entry 4) (map Num (atr_loop period a (drop period (trueRanges prices))))"
    using atr_loop_rounded [of period a "drop period (trueRanges prices)"]
    by (simp add: list_all_iff)
  ultimately show ?thesis by simp
qed

text \<open>
  Claim C9. The first defined entry of the output of \<open>calculateEMA\<close>, the mean of the
  first \<open>period\<close> prices, and the first defined entry of the output of
  \<open>calculateATR\<close>, the mean of the first \<open>period\<close> true ranges, are pushed as computed:
  for the prices 1, 1, 2 and for the true ranges 1, 1, 2 with a period of 3 the entry is
  4/3, which has neither 2 nor 4 decimal places.
\<close>

theorem seed_not_rounded:
  "calculateEMA (map Fin [1, 1, 2]) 3 = Inr [Null, Null, Num (Fin (4 / 3))] \<and>
   rounded_to 2 (Fin (4 / 3)) = False \<and>
   calculateATR atr_example 3 = [Null, Null, Null, Num (Fin (4 / 3))] \<and>
   rounded_to 4 (Fin (4 / 3)) = False"
  by code_simp

subsection \<open>\<open>calculateADX\<close> on a market without movement\<close>

lemma case_replicate:
  "0 < n \<Longrightarrow> (case replicate n x of [] \<Rightarrow> a | c # cs \<Rightarrow> f c cs) = f x (replicate (n - 1) x)"
  by (cases n) simp_all

lemma foldl_jadd_NaN: "foldl jadd NaN xs = NaN"
  by (induction xs) simp_all

lemma jsum_replicate_NaN: "0 < n \<Longrightarrow> jsum (replicate n NaN) = NaN"
  by (cases n) (simp_all add: jsum_def foldl_jadd_NaN)

lemma jsum_replicate_Fin: "jsum (replicate n (Fin a)) = Fin (real n * a)"
proof -
  have "jsum (map Fin (replicate n a)) = Fin (sum_list (replicate n a))"
    by (simp only: jsum_Fin)
  then show ?thesis by (simp add: sum_list_replicate)
qed

lemma adx_loop_NaN: "adx_loop p NaN (replicate n NaN) = replicate n NaN"
  by (induction n) (simp_all add: wilder_step_def)


lemma round_real_0: "round_real d 0 = 0"
  by (simp add: round_real_def)

lemma di_loop_quiet:
  "di_loop 14 (Fin 14) (Fin 0) (Fin 0) (replicate n (Fin 1, Fin 0, Fin 0))
     = replicate n (Fin 0, Fin 0, NaN)"
  by (induction n) (simp_all add: smooth_step_def jsub_def Let_def round_real_0)

lemma di_loop_still:
  "di_loop 14 (Fin 0) (Fin 0) (Fin 0) (replicate n (Fin 0, Fin 0, Fin 0))
     = replicate n (NaN, NaN, NaN)"
  by (induction n) (simp_all add: smooth_step_def jsub_def Let_def)

lemma quiet_rows:
  "trueRange quiet_candle quiet_candle = Fin 1"
  "directionalMovement quiet_candle quiet_candle = (Fin 0, Fin 0)"
  "trueRange still_candle still_candle = Fin 0"
  "directionalMovement still_candle still_candle = (Fin 0, Fin 0)"
  by (simp_all add: trueRange_def directionalMovement_def quiet_candle_def still_candle_def
      math_max_def jmax_def jsub_def jgt_def Let_def)

lemma js_slice_replicate:
  "js_slice 0 (int k) (replicate n x) = replicate (min k n) x"
  by (simp add: js_slice_def min_def)

lemma series_rows:
  "trueRanges (replicate n c) = replicate (n - 1) (trueRange c c)"
  "plusDM (replicate n c) = replicate (n - 1) (fst (directionalMovement c c))"
  "minusDM (replicate n c) = replicate (n - 1) (snd (directionalMovement c c))"
  by (simp_all add: trueRanges_def plusDM_def minusDM_def zip_replicate tl_replicate)

lemma high_quiet: "high quiet_candle = 2" "high still_candle = 1"
  by (simp_all add: quiet_candle_def still_candle_def)

lemma adx_quiet_series: "calculateADX (replicate 28 quiet_candle) 14 =
     Inr \<lparr>adx = replicate 27 Null @ [Num NaN],
          plusDI = replicate 14 Null @ replicate 13 (Num (Fin 0)),
          minusDI = replicate 14 Null @ replicate 13 (Num (Fin 0))\<rparr>"
proof -
  have sl: "js_slice 0 14 (replicate 27 x) = replicate 14 x" for x :: jsnum
    using js_slice_replicate [of 14 27 x] by simp
  have a0: "js_slice 0 14 (replicate 13 NaN) = replicate 13 NaN"
    using js_slice_replicate [of 14 13 NaN] by simp
  have pad: "js_slice 0 14 (replicate 27 Null) = replicate 14 Null"
    using js_slice_replicate [of 14 27 Null] by simp
  show ?thesis
    by (simp add: calculateADX_def Let_def case_replicate series_rows quiet_rows
        high_quiet sl jsum_replicate_Fin jsum_replicate_NaN zip_replicate di_loop_quiet a0 pad)
qed

lemma adx_still_series: "calculateADX (replicate 28 still_candle) 14 =
     Inr \<lparr>adx = replicate 27 Null @ [Num NaN],
          plusDI = replicate 14 Null @ replicate 13 (Num NaN),
          minusDI = replicate 14 Null @ replicate 13 (Num NaN)\<rparr>"
proof -
  have sl: "js_slice 0 14 (replicate 27 x) = replicate 14 x" for x :: jsnum
    using js_slice_replicate [of 14 27 x] by simp
  have a0: "js_slice 0 14 (replicate 13 NaN) = replicate 13 NaN"
    using js_slice_replicate [of 14 13 NaN] by simp
  have pad: "js_slice 0 14 (replicate 27 Null) = replicate 14 Null"
    using js_slice_replicate [of 14 27 Null] by simp
  show ?thesis
    by (simp add: calculateADX_def Let_def case_replicate series_rows quiet_rows
        high_quiet sl jsum_replicate_Fin jsum_replicate_NaN zip_replicate di_loop_still a0 pad)
qed

text \<open>
  The model writes the length of the padding with a subtraction of natural numbers. It
  never cuts off: there are at most as many ADX values as candles.
\<close>

lemma length_di_loop: "length (di_loop period s1 s2 s3 rest) = length rest"
  by (induction rest arbitrary: s1 s2 s3) (auto simp add: Let_def)

lemma length_adx_loop: "length (adx_loop period a ds) = length ds"
  by (induction ds arbitrary: a) (simp_all add: Let_def)

lemma adx_padding_not_negative:
  assumes "prices \<noteq> []"
  shows "length (toFixed 2 a0 # adx_loop period a0
           (drop period (map (\<lambda>(p, m, d). d)
              (di_loop period s1 s2 s3
                 (drop period (zip (trueRanges prices) (zip (plusDM prices) (minusDM prices))))))))
         \<le> length prices"
  using assms
  by (cases prices)
     (simp_all add: length_adx_loop length_di_loop trueRanges_def plusDM_def minusDM_def)

text \<open>
  What does hold of \<open>calculateADX\<close>: on valid candles and for a positive period, every
  entry of the three output sequences is \<open>null\<close>, NaN, or a number between 0 and 100.
  No entry is infinite or outside the interval; NaN is the only way out of it.
\<close>

lemma row_bounded_iff:
  "row_bounded r = (\<exists>t a b. r = (Fin t, Fin a, Fin b) \<and> 0 \<le> a \<and> 0 \<le> b \<and> a + b \<le> t)"
  by (cases r rule: row_bounded.cases) simp_all

lemma round_real_percent:
  assumes "0 \<le> x" and "x \<le> 100"
  shows "0 \<le> round_real 2 x \<and> round_real 2 x \<le> 100"
proof (cases "x = 0")
  case True
  then show ?thesis by (simp add: round_real_def)
next
  case False
  with assms have pos: "0 < x" by simp
  have "x * 100 + 1 / 2 \<le> 10000 + 1 / 2" using assms by simp
  then have "\<lfloor>x * 100 + 1 / 2\<rfloor> \<le> \<lfloor>(10000 + 1 / 2) :: real\<rfloor>" by (rule floor_mono)
  also have "\<lfloor>(10000 + 1 / 2) :: real\<rfloor> = 10000" by simp
  finally have up: "\<lfloor>x * 100 + 1 / 2\<rfloor> \<le> 10000" .
  have "(0::real) \<le> x * 100 + 1 / 2" using assms by simp
  then have lo: "0 \<le> \<lfloor>x * 100 + 1 / 2\<rfloor>" by simp
  have eq: "round_real 2 x = of_int \<lfloor>x * 100 + 1 / 2\<rfloor> / 100"
    using pos by (simp add: round_real_def)
  have "(of_int \<lfloor>x * 100 + 1 / 2\<rfloor> :: real) \<le> 10000" using up by linarith
  moreover have "(0::real) \<le> of_int \<lfloor>x * 100 + 1 / 2\<rfloor>" using lo by simp
  ultimately show ?thesis unfolding eq by simp
qed

lemma percent_toFixed: "percent_or_nan x \<Longrightarrow> percent_or_nan (toFixed 2 x)"
  by (cases x) (simp_all add: round_real_percent)

lemma jmax_NegInf: "jmax NegInf (Fin a) = Fin a"
  by (simp add: jmax_def)

lemma row_of_candles:
  assumes "valid_candle prev"
  shows "row_bounded (trueRange prev cur, fst (directionalMovement prev cur),
           snd (directionalMovement prev cur))"
proof -
  have tr: "trueRange prev cur
      = Fin (max (max (high cur - low cur) \<bar>high cur - close prev\<bar>) \<bar>low cur - close prev\<bar>)"
    by (simp add: trueRange_def math_max_def jmax_NegInf jsub_def Let_def)
  have v: "low prev \<le> close prev" "close prev \<le> high prev"
    using assms by (simp_all add: valid_candle_def)
  show ?thesis
    unfolding tr using v
    by (auto simp add: directionalMovement_def jsub_def jgt_def Let_def)
qed

lemma series_as_rows:
  "trueRanges cs = map fst (map candle_row (zip cs (tl cs)))"
  "plusDM cs = map (fst \<circ> snd) (map candle_row (zip cs (tl cs)))"
  "minusDM cs = map (snd \<circ> snd) (map candle_row (zip cs (tl cs)))"
  "zip (trueRanges cs) (zip (plusDM cs) (minusDM cs)) = map candle_row (zip cs (tl cs))"
proof -
  show "trueRanges cs = map fst (map candle_row (zip cs (tl cs)))"
    by (simp add: trueRanges_def candle_row_def split_def comp_def)
  show "plusDM cs = map (fst \<circ> snd) (map candle_row (zip cs (tl cs)))"
    by (simp add: plusDM_def candle_row_def split_def comp_def)
  show "minusDM cs = map (snd \<circ> snd) (map candle_row (zip cs (tl cs)))"
    by (simp add: minusDM_def candle_row_def split_def comp_def)
  have "zip (map f xs) (zip (map g xs) (map h xs)) = map (\<lambda>x. (f x, g x, h x)) xs"
    for f g h :: "candle \<times> candle \<Rightarrow> jsnum" and xs
    by (induction xs) simp_all
  then show "zip (trueRanges cs) (zip (plusDM cs) (minusDM cs)) = map candle_row (zip cs (tl cs))"
    by (simp add: trueRanges_def plusDM_def minusDM_def candle_row_def split_def)
qed

lemma rows_bounded:
  assumes "list_all valid_candle cs"
  shows "list_all row_bounded (map candle_row (zip cs (tl cs)))"
proof -
  have "row_bounded (candle_row pc)" if "pc \<in> set (zip cs (tl cs))" for pc
  proof -
    obtain x y where pc: "pc = (x, y)" by (cases pc)
    from that have "x \<in> set cs" unfolding pc by (rule set_zip_leftD)
    then have "fst pc \<in> set cs" by (simp add: pc)
    with assms have "valid_candle (fst pc)" by (simp add: list_all_iff)
    then show ?thesis unfolding candle_row_def by (rule row_of_candles)
  qed
  then show ?thesis by (simp add: list_all_iff)
qed

lemma set_js_slice: "set (js_slice s e xs) \<subseteq> set xs"
proof -
  have "set (take m (drop k xs)) \<subseteq> set xs" for m k
    by (meson in_set_dropD in_set_takeD subsetI)
  then show ?thesis by (simp add: js_slice_def Let_def)
qed

lemma length_js_slice_le: "length (js_slice 0 (int p) xs) \<le> p"
  by (simp add: js_slice_def Let_def)

lemma foldl_rows_bounded:
  "row_bounded (x, y, z) \<Longrightarrow> list_all row_bounded rows \<Longrightarrow>
   row_bounded (foldl jadd x (map fst rows), foldl jadd y (map (fst \<circ> snd) rows),
     foldl jadd z (map (snd \<circ> snd) rows))"
proof (induction rows arbitrary: x y z)
  case Nil
  then show ?case by simp
next
  case (Cons r rows)
  from Cons.prems(1) obtain t a b where s: "x = Fin t" "y = Fin a" "z = Fin b"
    "0 \<le> a" "0 \<le> b" "a + b \<le> t"
    by (auto simp add: row_bounded_iff)
  from Cons.prems(2) obtain t' a' b' where r: "r = (Fin t', Fin a', Fin b')"
    "0 \<le> a'" "0 \<le> b'" "a' + b' \<le> t'"
    by (auto simp add: row_bounded_iff)
  have "row_bounded (jadd x (fst r), jadd y (fst (snd r)), jadd z (snd (snd r)))"
    using s r by simp
  moreover have "list_all row_bounded rows" using Cons.prems(2) by simp
  ultimately show ?case using Cons.IH by simp
qed

lemma sums_bounded:
  "list_all row_bounded rows \<Longrightarrow>
   row_bounded (jsum (map fst rows), jsum (map (fst \<circ> snd) rows), jsum (map (snd \<circ> snd) rows))"
  unfolding jsum_def by (rule foldl_rows_bounded) simp_all

lemma smooth_step_Fin:
  "0 < period \<Longrightarrow> smooth_step period (Fin s) (Fin x) = Fin (s - s / real period + x)"
  by (simp add: smooth_step_def jsub_def)

lemma smooth_keeps_bounds:
  assumes "0 < period" and "0 \<le> a" and "0 \<le> b" and "a + b \<le> t"
    and "0 \<le> a'" and "0 \<le> b'" and "a' + b' \<le> t'"
  shows "0 \<le> a - a / real period + a'" and "0 \<le> b - b / real period + b'"
    and "(a - a / real period + a') + (b - b / real period + b') \<le> t - t / real period + t'"
proof -
  define k where "k = 1 - 1 / real period"
  have k: "0 \<le> k" using assms(1) by (simp add: k_def)
  have e: "u - u / real period = u * k" for u by (simp add: k_def algebra_simps)
  have "0 \<le> a * k" using assms(2) k by simp
  then show "0 \<le> a - a / real period + a'" using assms(5) by (simp only: e)
  have "0 \<le> b * k" using assms(3) k by simp
  then show "0 \<le> b - b / real period + b'" using assms(6) by (simp only: e)
  have "(a + b) * k \<le> t * k" using assms(4) k by (rule mult_right_mono)
  then have "a * k + b * k \<le> t * k" by (simp add: algebra_simps)
  then show "(a - a / real period + a') + (b - b / real period + b') \<le> t - t / real period + t'"
    using assms(7) unfolding e by linarith
qed

lemma di_percent:
  assumes "0 \<le> a" and "a \<le> t"
  shows "percent_or_nan (jmul (jdiv (Fin a) (Fin t)) (Fin 100))"
proof (cases "t = 0")
  case True
  with assms have "a = 0" by simp
  with True show ?thesis by simp
next
  case False
  with assms have t: "0 < t" by simp
  have "0 \<le> a * 100 / t" using assms t by simp
  moreover have "a * 100 / t \<le> 100" using assms t by (simp add: pos_divide_le_eq)
  ultimately show ?thesis using False by simp
qed

lemma dx_percent:
  assumes "0 \<le> a" and "0 \<le> b" and "a + b \<le> t"
  shows "percent_or_nan
     (jmul (jabs (jdiv (jsub (jmul (jdiv (Fin a) (Fin t)) (Fin 100))
                           (jmul (jdiv (Fin b) (Fin t)) (Fin 100)))
                     (jadd (jmul (jdiv (Fin a) (Fin t)) (Fin 100))
                           (jmul (jdiv (Fin b) (Fin t)) (Fin 100)))))
        (Fin 100))"
proof (cases "t = 0")
  case True
  with assms have "a = 0" "b = 0" by simp_all
  with True show ?thesis by (simp add: jsub_def)
next
  case False
  with assms have t: "0 < t" by simp
  define u where "u = a / t * 100"
  define v where "v = b / t * 100"
  have u: "0 \<le> u" and v: "0 \<le> v" using assms t by (simp_all add: u_def v_def)
  have di: "jmul (jdiv (Fin a) (Fin t)) (Fin 100) = Fin u"
    "jmul (jdiv (Fin b) (Fin t)) (Fin 100) = Fin v"
    using False by (simp_all add: u_def v_def)
  show ?thesis
  proof (cases "u + v = 0")
    case True
    with u v have "u = 0" "v = 0" by linarith+
    then show ?thesis unfolding di by (simp add: jsub_def)
  next
    case nz: False
    with u v have pos: "0 < u + v" by linarith
    have "\<bar>u - v\<bar> \<le> u + v" using u v by linarith
    then have le: "\<bar>u - v\<bar> * 100 / (u + v) \<le> 100"
      using pos by (simp add: pos_divide_le_eq)
    have ge: "0 \<le> \<bar>u - v\<bar> * 100 / (u + v)" using pos by simp
    have "jmul (jabs (jdiv (jsub (Fin u) (Fin v)) (jadd (Fin u) (Fin v)))) (Fin 100)
        = Fin (\<bar>u - v\<bar> * 100 / (u + v))"
      using nz pos by (simp add: jsub_def abs_of_pos)
    then show ?thesis unfolding di using le ge by simp
  qed
qed

lemma di_loop_in_range:
  "0 < period \<Longrightarrow> row_bounded (sTR, sP, sM) \<Longrightarrow> list_all row_bounded rest \<Longrightarrow>
   list_all triple_in_range (di_loop period sTR sP sM rest)"
proof (induction rest arbitrary: sTR sP sM)
  case Nil
  then show ?case by simp
next
  case (Cons r rest)
  from Cons.prems(2) obtain t a b where s: "sTR = Fin t" "sP = Fin a" "sM = Fin b"
    "0 \<le> a" "0 \<le> b" "a + b \<le> t"
    by (auto simp add: row_bounded_iff)
  from Cons.prems(3) obtain t' a' b' where r: "r = (Fin t', Fin a', Fin b')"
    "0 \<le> a'" "0 \<le> b'" "a' + b' \<le> t'"
    by (auto simp add: row_bounded_iff)
  define t2 where "t2 = t - t / real period + t'"
  define a2 where "a2 = a - a / real period + a'"
  define b2 where "b2 = b - b / real period + b'"
  have st: "smooth_step period sTR (Fin t') = Fin t2" "smooth_step period sP (Fin a') = Fin a2"
    "smooth_step period sM (Fin b') = Fin b2"
    using Cons.prems(1) by (simp_all add: s smooth_step_Fin t2_def a2_def b2_def)
  have bnd: "0 \<le> a2" "0 \<le> b2" "a2 + b2 \<le> t2"
    unfolding a2_def b2_def t2_def
    using smooth_keeps_bounds [OF Cons.prems(1) s(4-6) r(2-4)] by simp_all
  then have a2t: "a2 \<le> t2" and b2t: "b2 \<le> t2" by linarith+
  have rest: "list_all row_bounded rest" using Cons.prems(3) by simp
  have rec: "list_all triple_in_range (di_loop period (Fin t2) (Fin a2) (Fin b2) rest)"
    using Cons.prems(1) bnd rest by (intro Cons.IH) simp_all
  have p: "percent_or_nan (toFixed 2 (jmul (jdiv (Fin a2) (Fin t2)) (Fin 100)))"
    using bnd(1) a2t by (intro percent_toFixed di_percent)
  have m: "percent_or_nan (toFixed 2 (jmul (jdiv (Fin b2) (Fin t2)) (Fin 100)))"
    using bnd(2) b2t by (intro percent_toFixed di_percent)
  have d: "percent_or_nan (toFixed 2
     (jmul (jabs (jdiv (jsub (jmul (jdiv (Fin a2) (Fin t2)) (Fin 100))
                           (jmul (jdiv (Fin b2) (Fin t2)) (Fin 100)))
                     (jadd (jmul (jdiv (Fin a2) (Fin t2)) (Fin 100))
                           (jmul (jdiv (Fin b2) (Fin t2)) (Fin 100)))))
        (Fin 100)))"
    using bnd by (intro percent_toFixed dx_percent)
  show ?case
    unfolding r di_loop.simps Let_def st
    using p m d rec by simp
qed

lemma foldl_jadd_percent:
  "0 \<le> c \<Longrightarrow> c \<le> 100 * real k \<Longrightarrow> list_all percent_or_nan xs \<Longrightarrow>
   foldl jadd (Fin c) xs = NaN \<or>
   (\<exists>s. foldl jadd (Fin c) xs = Fin s \<and> 0 \<le> s \<and> s \<le> 100 * real (k + length xs))"
proof (induction xs arbitrary: c k)
  case Nil
  then show ?case by simp
next
  case (Cons x xs)
  show ?case
  proof (cases x)
    case (Fin a)
    with Cons.prems have a: "0 \<le> a" "a \<le> 100" by simp_all
    have "0 \<le> c + a" "c + a \<le> 100 * real (Suc k)"
      using a Cons.prems(1,2) by (simp_all add: algebra_simps)
    moreover have "list_all percent_or_nan xs" using Cons.prems(3) by simp
    ultimately have "foldl jadd (Fin (c + a)) xs = NaN \<or>
       (\<exists>s. foldl jadd (Fin (c + a)) xs = Fin s \<and> 0 \<le> s \<and>
            s \<le> 100 * real (Suc k + length xs))"
      by (rule Cons.IH)
    then show ?thesis using Fin by simp
  next
    case NaN
    then show ?thesis by (simp add: foldl_jadd_NaN)
  next
    case PosInf
    with Cons.prems show ?thesis by simp
  next
    case NegInf
    with Cons.prems show ?thesis by simp
  qed
qed

lemma mean_percent:
  assumes "0 < p" and "list_all percent_or_nan xs" and "length xs \<le> p"
  shows "percent_or_nan (jdiv (jsum xs) (Fin (real p)))"
proof -
  have "foldl jadd (Fin 0) xs = NaN \<or>
     (\<exists>s. foldl jadd (Fin 0) xs = Fin s \<and> 0 \<le> s \<and> s \<le> 100 * real (0 + length xs))"
    using assms(2) by (intro foldl_jadd_percent) simp_all
  then show ?thesis
  proof
    assume "foldl jadd (Fin 0) xs = NaN"
    then show ?thesis by (simp add: jsum_def)
  next
    assume "\<exists>s. foldl jadd (Fin 0) xs = Fin s \<and> 0 \<le> s \<and> s \<le> 100 * real (0 + length xs)"
    then obtain s where s: "jsum xs = Fin s" "0 \<le> s" "s \<le> 100 * real (length xs)"
      by (auto simp add: jsum_def)
    have "100 * real (length xs) \<le> 100 * real p" using assms(3) by simp
    with s(3) have "s \<le> 100 * real p" by linarith
    then have "s / real p \<le> 100" using assms(1) by (simp add: pos_divide_le_eq)
    moreover have "0 \<le> s / real p" using s(2) by simp
    ultimately show ?thesis using assms(1) by (simp add: s(1))
  qed
qed

lemma wilder_step_percent:
  assumes "0 < p" and "percent_or_nan a" and "percent_or_nan d"
  shows "percent_or_nan (wilder_step p a d)"
proof (cases a)
  case (Fin x)
  show ?thesis
  proof (cases d)
    case (Fin y)
    from assms(2) \<open>a = Fin x\<close> have x: "0 \<le> x" "x \<le> 100" by simp_all
    from assms(3) Fin have y: "0 \<le> y" "y \<le> 100" by simp_all
    have p1: "0 \<le> real p - 1" using assms(1) by simp
    have "x * (real p - 1) \<le> 100 * (real p - 1)" using x(2) p1 by (rule mult_right_mono)
    then have "x * (real p - 1) + y \<le> 100 * real p" using y(2) by (simp add: algebra_simps)
    then have up: "(x * (real p - 1) + y) / real p \<le> 100"
      using assms(1) by (simp add: pos_divide_le_eq)
    have "0 \<le> x * (real p - 1)" using x(1) p1 by simp
    then have lo: "0 \<le> (x * (real p - 1) + y) / real p" using y(1) by simp
    show ?thesis
      using assms(1) up lo by (simp add: wilder_step_def \<open>a = Fin x\<close> Fin)
  next
    case NaN
    then show ?thesis by (simp add: wilder_step_def \<open>a = Fin x\<close>)
  next
    case PosInf
    with assms(3) show ?thesis by simp
  next
    case NegInf
    with assms(3) show ?thesis by simp
  qed
next
  case NaN
  then show ?thesis by (simp add: wilder_step_def)
next
  case PosInf
  with assms(2) show ?thesis by simp
next
  case NegInf
  with assms(2) show ?thesis by simp
qed

lemma adx_loop_percent:
  "0 < p \<Longrightarrow> percent_or_nan a \<Longrightarrow> list_all percent_or_nan ds \<Longrightarrow>
   list_all percent_or_nan (adx_loop p a ds)"
proof (induction ds arbitrary: a)
  case Nil
  then show ?case by simp
next
  case (Cons d ds)
  have w: "percent_or_nan (wilder_step p a d)"
    using Cons.prems by (intro wilder_step_percent) simp_all
  then have "list_all percent_or_nan (adx_loop p (wilder_step p a d) ds)"
    using Cons.prems by (intro Cons.IH) simp_all
  with w show ?case by (simp add: Let_def percent_toFixed)
qed


lemma padded_in_range:
  assumes "list_all percent_or_nan xs"
  shows "list_all entry_in_range (replicate n Null @ map Num xs)"
    and "list_all entry_in_range (js_slice 0 k (replicate n Null) @ map Num xs)"
proof -
  have v: "list_all entry_in_range (map Num xs)"
    using assms by (simp add: list_all_iff)
  then show "list_all entry_in_range (replicate n Null @ map Num xs)"
    by (auto simp add: list_all_iff)
  have "set (js_slice 0 k (replicate n Null)) \<subseteq> {Null}"
    using set_js_slice [of 0 k "replicate n Null"] by auto
  then have "list_all entry_in_range (js_slice 0 k (replicate n Null))"
    by (auto simp add: list_all_iff)
  with v show "list_all entry_in_range (js_slice 0 k (replicate n Null) @ map Num xs)"
    by simp
qed

lemma adx_in_range_or_nan:
  assumes valid: "list_all valid_candle cs" and per: "0 < period"
    and res: "calculateADX cs period = Inr r"
  shows "list_all entry_in_range (adx r) \<and> list_all entry_in_range (plusDI r) \<and>
         list_all entry_in_range (minusDI r)"
proof (cases "length cs < period * 2 \<or> high (hd cs) = 0")
  case True
  then have "r = \<lparr>adx = [], plusDI = [], minusDI = []\<rparr>"
    using res per by (cases cs) (auto simp add: calculateADX_def split: if_splits)
  then show ?thesis by simp
next
  case False
  define rows where "rows = map candle_row (zip cs (tl cs))"
  have rb: "list_all row_bounded rows"
    unfolding rows_def using valid by (rule rows_bounded)
  define start where "start = js_slice 0 (int period) rows"
  have "set start \<subseteq> set rows" unfolding start_def by (rule set_js_slice)
  with rb have "list_all row_bounded start" by (auto simp add: list_all_iff)
  then have init: "row_bounded (jsum (map fst start), jsum (map (fst \<circ> snd) start),
      jsum (map (snd \<circ> snd) start))"
    by (rule sums_bounded)
  have "set (drop period rows) \<subseteq> set rows" by (rule set_drop_subset)
  with rb have later: "list_all row_bounded (drop period rows)" by (auto simp add: list_all_iff)
  define out where "out = di_loop period (jsum (map fst start)) (jsum (map (fst \<circ> snd) start))
      (jsum (map (snd \<circ> snd) start)) (drop period rows)"
  have out: "list_all triple_in_range out"
    unfolding out_def using per init later by (rule di_loop_in_range)
  have pdi: "list_all percent_or_nan (map (\<lambda>(p, m, d). p) out)"
    and mdi: "list_all percent_or_nan (map (\<lambda>(p, m, d). m) out)"
    and dxs: "list_all percent_or_nan (map (\<lambda>(p, m, d). d) out)"
    using out by (auto simp add: list_all_iff)
  define dx where "dx = map (\<lambda>(p, m, d). d) out"
  have "set (js_slice 0 (int period) dx) \<subseteq> set dx" by (rule set_js_slice)
  with dxs have "list_all percent_or_nan (js_slice 0 (int period) dx)"
    by (auto simp add: list_all_iff dx_def)
  then have a0: "percent_or_nan (jdiv (jsum (js_slice 0 (int period) dx)) (Fin (real period)))"
    using per length_js_slice_le by (intro mean_percent)
  have "set (drop period dx) \<subseteq> set dx" by (rule set_drop_subset)
  with dxs have "list_all percent_or_nan (drop period dx)" by (auto simp add: list_all_iff dx_def)
  with per a0 have loop: "list_all percent_or_nan
      (adx_loop period (jdiv (jsum (js_slice 0 (int period) dx)) (Fin (real period)))
         (drop period dx))"
    by (intro adx_loop_percent)
  define adxs where "adxs =
      toFixed 2 (jdiv (jsum (js_slice 0 (int period) dx)) (Fin (real period)))
        # adx_loop period (jdiv (jsum (js_slice 0 (int period) dx)) (Fin (real period)))
            (drop period dx)"
  have vals: "list_all percent_or_nan adxs"
    unfolding adxs_def using a0 loop by (simp add: percent_toFixed)
  obtain c rest where cs: "cs = c # rest" using False per by (cases cs) auto
  have sums: "jsum (js_slice 0 (int period) (trueRanges cs)) = jsum (map fst start)"
    "jsum (js_slice 0 (int period) (plusDM cs)) = jsum (map (fst \<circ> snd) start)"
    "jsum (js_slice 0 (int period) (minusDM cs)) = jsum (map (snd \<circ> snd) start)"
    by (simp_all only: series_as_rows js_slice_map start_def rows_def)
  have r: "r = \<lparr>adx = replicate (length cs - length adxs) Null @ map Num adxs,
      plusDI = js_slice 0 (int (length (replicate (length cs - length adxs) Null))
                 - int (length (map (\<lambda>(p, m, d). Num p) out)))
                 (replicate (length cs - length adxs) Null) @ map (\<lambda>(p, m, d). Num p) out,
      minusDI = js_slice 0 (int (length (replicate (length cs - length adxs) Null))
                 - int (length (map (\<lambda>(p, m, d). Num m) out)))
                 (replicate (length cs - length adxs) Null) @ map (\<lambda>(p, m, d). Num m) out\<rparr>"
    using res False
    unfolding calculateADX_def Let_def sums series_as_rows(4) rows_def [symmetric]
      out_def [symmetric] dx_def [symmetric] adxs_def [symmetric]
    by (simp add: cs)
  have np: "map (\<lambda>(p, m, d). Num p) out = map Num (map (\<lambda>(p, m, d). p) out)"
    and nm: "map (\<lambda>(p, m, d). Num m) out = map Num (map (\<lambda>(p, m, d). m) out)"
    by (simp_all add: split_def)
  show ?thesis
    unfolding r using padded_in_range [OF vals] padded_in_range(2) [OF pdi]
      padded_in_range(2) [OF mdi]
    by (simp only: np nm adx_result.simps)
qed

text \<open>
  Claim C6. On 28 valid candles that all have the same high and the same low, with the
  default period of 14, \<open>calculateADX\<close> divides 0 by 0: the directional movement is 0
  throughout, so \<open>DX\<close> and with it the ADX value is NaN; when high, low and close are
  all equal, the true range is 0 as well and \<open>+DI\<close> and \<open>-DI\<close> are NaN too.
\<close>

theorem adx_not_a_number:
  "list_all valid_candle (replicate 28 quiet_candle) \<and>
   calculateADX (replicate 28 quiet_candle) 14 =
     Inr \<lparr>adx = replicate 27 Null @ [Num NaN],
          plusDI = replicate 14 Null @ replicate 13 (Num (Fin 0)),
          minusDI = replicate 14 Null @ replicate 13 (Num (Fin 0))\<rparr> \<and>
   list_all valid_candle (replicate 28 still_candle) \<and>
   calculateADX (replicate 28 still_candle) 14 =
     Inr \<lparr>adx = replicate 27 Null @ [Num NaN],
          plusDI = replicate 14 Null @ replicate 13 (Num NaN),
          minusDI = replicate 14 Null @ replicate 13 (Num NaN)\<rparr>"
proof -
  have "list_all valid_candle (replicate 28 quiet_candle)"
    by (simp add: list_all_iff valid_candle_def quiet_candle_def)
  moreover have "list_all valid_candle (replicate 28 still_candle)"
    by (simp add: list_all_iff valid_candle_def still_candle_def)
  ultimately show ?thesis
    using adx_quiet_series adx_still_series by (intro conjI)
qed

subsection \<open>Support and resistance levels\<close>















subsection \<open>A series too short for the indicators\<close>

text \<open>
  On five candles no indicator has a value: the RSI is \<open>null\<close>, the volume change is
  \<open>null\<close>, and every array is empty, so its last entry is \<open>undefined\<close>. The aggregator
  still returns a snapshot, not the error outcome.
\<close>

lemma short_snapshot:
  "calculateAllIndicators idp short_series =
     Inr \<lparr>lastPrice = 101,
          candles = short_series,
          rsi = Null, sma20 = Undefined, ema50 = Undefined, ema200 = Undefined,
          macd_line = Undefined, macd_signal = Undefined, macd_histogram = Undefined,
          bollinger_upper = Undefined, bollinger_middle = Undefined,
          bollinger_lower = Undefined,
          volume_info = \<lparr>averageVolume = Null, volumeChange = Null, isVolumeHigh = False,
                          trend = ''neutral''\<rparr>,
          support = [], resistance = [],
          atr = Undefined, adx_value = Undefined, adx_plusDI = Undefined,
          adx_minusDI = Undefined,
          patterns = filter (\<lambda>p. 2 \<le> int (position p)) (idp short_series)\<rparr>"
  by (simp add: calculateAllIndicators_def short_series_def calculateEMA_def calculateMACD_def
      findSupportResistanceLevels_def calculateADX_def calculateBollingerBands_def
      calculateRSI_def calculateSMA_def calculateATR_def analyzeVolume_def last_elem_def
      slice_last_def base_candle_def)

text \<open>
  With the default periods no indicator throws on a non-empty series, so the aggregator
  reports the error outcome for the empty series and for no other.
\<close>

lemma ema_no_error: "0 < period \<Longrightarrow> \<exists>e. calculateEMA prices period = Inr e"
  by (simp add: calculateEMA_def Let_def)

lemma macd_no_error:
  assumes "0 < fastPeriod" and "0 < slowPeriod" and "0 < signalPeriod"
  shows "\<exists>m. calculateMACD prices fastPeriod slowPeriod signalPeriod = Inr m"
proof (cases "length prices < slowPeriod + signalPeriod")
  case True
  then show ?thesis by (simp add: calculateMACD_def)
next
  case False
  obtain f where f: "calculateEMA prices fastPeriod = Inr f"
    using ema_no_error [OF assms(1)] by blast
  obtain s where s: "calculateEMA prices slowPeriod = Inr s"
    using ema_no_error [OF assms(2)] by blast
  define valid where "valid = filter (\<lambda>v. v \<noteq> Null)
      (map (\<lambda>i. diff_entry (at_index f i) (at_index s i)) [0 ..< length prices])"
  obtain g where g: "calculateEMA (map toNumber valid) signalPeriod = Inr g"
    using ema_no_error [OF assms(3)] by blast
  show ?thesis
    using False by (simp add: calculateMACD_def f s Let_def valid_def [symmetric] g)
qed

lemma find_levels_no_error:
  "prices \<noteq> [] \<Longrightarrow> \<exists>l. findSupportResistanceLevels prices lookback = Inr l"
  by (cases prices) (simp_all add: findSupportResistanceLevels_def split_def Let_def)

lemma adx_no_error: "prices \<noteq> [] \<Longrightarrow> \<exists>r. calculateADX prices period = Inr r"
  by (cases prices) (simp_all add: calculateADX_def Let_def)

lemma error_outcome_only_when_empty:
  "(\<exists>msg. calculateAllIndicators idp cs = Inl msg) = (cs = [])"
proof (cases "cs = []")
  case True
  then show ?thesis by (simp add: calculateAllIndicators_def)
next
  case False
  define closes where "closes = map (\<lambda>c. Fin (close c)) cs"
  obtain e50 where e50: "calculateEMA closes 50 = Inr e50"
    using ema_no_error [of 50 closes] by auto
  obtain e200 where e200: "calculateEMA closes 200 = Inr e200"
    using ema_no_error [of 200 closes] by auto
  obtain m where m: "calculateMACD closes 12 26 9 = Inr m"
    using macd_no_error [of 12 26 9 closes] by auto
  obtain l where l: "findSupportResistanceLevels cs 30 = Inr l"
    using find_levels_no_error [OF False] by blast
  obtain r where r: "calculateADX cs 14 = Inr r"
    using adx_no_error [OF False] by blast
  have "\<exists>a. calculateAllIndicators idp cs = Inr a"
    using False
    by (simp add: calculateAllIndicators_def Let_def closes_def [symmetric] e50 e200 m l r)
  with False show ?thesis by auto
qed

text \<open>
  Claim C5. The aggregator reports the error outcome for an empty series only, and
  \<open>generateTechnicalAlerts\<close> then returns the empty result. For the five candles of
  \<open>short_series\<close> the RSI cannot be computed, but the snapshot is not the error
  outcome, and the generator emits a BUY alert of confidence LOW: \<open>null < 30\<close> is true
  in JavaScript.
\<close>

theorem short_series_buy_alert:
  "(\<exists>a. calculateAllIndicators idp short_series = Inr a \<and> rsi a = Null) \<and>
   buy (generateTechnicalAlerts idp smb tf short_series) =
     [\<lparr>symbol = smb, atype = BUY, price = 101, conf = LOW, read_flag = False,
       timeframe = tf, monitoring_type = None, ind_rsi = Null, ind_macd = ''BEARISH'',
       ind_moving_averages = ''DOWNTREND'', ind_bollinger_bands = ''MIDDLE_BAND'',
       level_support = Num (Fin (1919 / 20)), level_resistance = Num (Fin (2121 / 20)),
       stopLoss = Some (Fin 99), target = Some (Fin (1313 / 10))\<rparr>] \<and>
   generateTechnicalAlerts idp smb tf [] = no_alerts"
proof -
  have "buy (generateTechnicalAlerts idp smb tf short_series) =
     [\<lparr>symbol = smb, atype = BUY, price = 101, conf = LOW, read_flag = False,
       timeframe = tf, monitoring_type = None, ind_rsi = Null, ind_macd = ''BEARISH'',
       ind_moving_averages = ''DOWNTREND'', ind_bollinger_bands = ''MIDDLE_BAND'',
       level_support = Num (Fin (1919 / 20)), level_resistance = Num (Fin (2121 / 20)),
       stopLoss = Some (Fin 99), target = Some (Fin (1313 / 10))\<rparr>]"
    unfolding generateTechnicalAlerts_def short_snapshot
    by (simp add: technical_rules_def
        technical_buy_def Let_def buy_confirmedByMACD_def buy_confirmedByBollinger_def
        confirmedByVolume_def confirmationCount_def finalConfidence_def buy_target_def
        macd_label_def jgt_def jsub_def js_or_def first_level_def slice_last_def
        short_series_def base_candle_def math_min_def jmin_def)
  moreover have "generateTechnicalAlerts idp smb tf [] = no_alerts"
    by (simp add: generateTechnicalAlerts_def calculateAllIndicators_def)
  ultimately show ?thesis
    by (simp add: short_snapshot)
qed

end
